theory Spec2Isabelle
  imports Complex_Main
begin

section \<open>Python built-ins used by both shells\<close>

text \<open>
  The two programs, \<^verbatim>\<open>browser.py\<close> (GTK/WebKit2) and \<^verbatim>\<open>qtbrowser.py\<close> (Qt/WebEngine),
  are Python scripts. A Python \<^verbatim>\<open>str\<close> is modelled as a \<^typ>\<open>string\<close> in which every
  \<^typ>\<open>char\<close> stands for one code point below 256 (Latin-1), so that \<^verbatim>\<open>len\<close>,
  slicing and the character predicates count what Python counts. The character classes below
  are Python's \<^verbatim>\<open>str.isspace\<close>, \<^verbatim>\<open>str.isalnum\<close> and the decimal digits accepted
  by \<^verbatim>\<open>int()\<close>, restricted to these code points.
\<close>

datatype py_error = ValueError | OverflowError | FileNotFoundError | OSError

definition isspace :: "char \<Rightarrow> bool" where
  "isspace c = (let n = (of_char c :: nat) in
     (9 \<le> n \<and> n \<le> 13) \<or> (28 \<le> n \<and> n \<le> 32) \<or> n = 133 \<or> n = 160)"

definition isdigit :: "char \<Rightarrow> bool" where
  "isdigit c = (let n = (of_char c :: nat) in 48 \<le> n \<and> n \<le> 57)"

definition isalnum :: "char \<Rightarrow> bool" where
  "isalnum c = (let n = (of_char c :: nat) in
     (48 \<le> n \<and> n \<le> 57) \<or> (65 \<le> n \<and> n \<le> 90) \<or> (97 \<le> n \<and> n \<le> 122) \<or>
     n = 170 \<or> n = 178 \<or> n = 179 \<or> n = 181 \<or> n = 185 \<or> n = 186 \<or>
     (188 \<le> n \<and> n \<le> 190) \<or> (192 \<le> n \<and> n \<le> 214) \<or> (216 \<le> n \<and> n \<le> 246) \<or>
     248 \<le> n)"

text \<open>\<^verbatim>\<open>s.strip()\<close>: leading and trailing whitespace removed.\<close>

definition strip :: "string \<Rightarrow> string" where
  "strip s = rev (dropWhile isspace (rev (dropWhile isspace s)))"

text \<open>\<^verbatim>\<open>s.startswith(p)\<close> and, for a tuple of prefixes, \<^verbatim>\<open>s.startswith((p1, ..., pn))\<close>.\<close>

definition startswith :: "string \<Rightarrow> string \<Rightarrow> bool" where
  "startswith s p = (take (length p) s = p)"

definition startswith_any :: "string \<Rightarrow> string list \<Rightarrow> bool" where
  "startswith_any s ps = list_ex (startswith s) ps"

text \<open>\<^verbatim>\<open>s.split(sep)\<close> for a one-character separator: never the empty list.\<close>

fun split_on :: "char \<Rightarrow> string \<Rightarrow> string list" where
  "split_on sep [] = [[]]"
| "split_on sep (c # cs) =
     (if c = sep then [] # split_on sep cs
      else (case split_on sep cs of
              [] \<Rightarrow> [[c]]
            | w # ws \<Rightarrow> (c # w) # ws))"

text \<open>
  \<^verbatim>\<open>int(s)\<close> on a string, base ten: surrounding whitespace is skipped, one sign is
  allowed, then decimal digits, where single underscores may stand between two digits.
  Anything else raises \<^verbatim>\<open>ValueError\<close>, here \<^const>\<open>None\<close>.

  The whitespace that \<^verbatim>\<open>int()\<close> skips is not that of \<^verbatim>\<open>str.strip\<close>: the
  interpreter first maps every non-ASCII whitespace character to a blank and then skips the
  ASCII whitespace of C (tab, line feed, vertical tab, form feed, carriage return, blank).
  The separators 0x1C to 0x1F, which \<^verbatim>\<open>str.isspace\<close> accepts, are ASCII and are not
  skipped: a digit string preceded by the character 0x1C raises \<^verbatim>\<open>ValueError\<close>.

  A string with more decimal digits than \<^verbatim>\<open>sys.get_int_max_str_digits()\<close> also raises
  \<^verbatim>\<open>ValueError\<close>; leading zeros count, underscores and the sign do not. The limit
  is the interpreter's default, 4300.
\<close>

definition int_whitespace :: "char \<Rightarrow> bool" where
  "int_whitespace c = (let n = (of_char c :: nat) in
     (9 \<le> n \<and> n \<le> 13) \<or> n = 32 \<or> n = 133 \<or> n = 160)"

definition int_max_str_digits :: nat where
  "int_max_str_digits = 4300"

definition digit_val :: "char \<Rightarrow> int" where
  "digit_val c = int (of_char c) - 48"

fun parse_digits :: "string \<Rightarrow> int \<Rightarrow> int option" where
  "parse_digits [] acc = None"
| "parse_digits [c] acc = (if isdigit c then Some (10 * acc + digit_val c) else None)"
| "parse_digits (c # d # ds) acc =
     (if isdigit c then
        (if d = CHR ''_'' then parse_digits ds (10 * acc + digit_val c)
         else parse_digits (d # ds) (10 * acc + digit_val c))
      else None)"

definition int_strip :: "string \<Rightarrow> string" where
  "int_strip s = rev (dropWhile int_whitespace (rev (dropWhile int_whitespace s)))"

definition parse_number :: "string \<Rightarrow> int option" where
  "parse_number ds =
     (if length (filter isdigit ds) > int_max_str_digits then None else parse_digits ds 0)"

definition py_int :: "string \<Rightarrow> int option" where
  "py_int s =
     (case int_strip s of
        [] \<Rightarrow> None
      | c # cs \<Rightarrow>
          if c = CHR ''-'' then map_option uminus (parse_number cs)
          else if c = CHR ''+'' then parse_number cs
          else parse_number (c # cs))"

text \<open>
  \<^verbatim>\<open>os.getenv(name)\<close> and \<^verbatim>\<open>os.getenv(name, default)\<close> read the process
  environment, a finite map from names to values. A value used as a condition is true
  when it is present and not the empty string.
\<close>

type_synonym environ = "string \<rightharpoonup> string"

definition getenv :: "environ \<Rightarrow> string \<Rightarrow> string option" where
  "getenv env name = env name"

definition getenv_default :: "environ \<Rightarrow> string \<Rightarrow> string \<Rightarrow> string" where
  "getenv_default env name dflt = (case env name of None \<Rightarrow> dflt | Some v \<Rightarrow> v)"

definition truthy :: "string option \<Rightarrow> bool" where
  "truthy v = (case v of None \<Rightarrow> False | Some s \<Rightarrow> s \<noteq> [])"

text \<open>
  \<^verbatim>\<open>random.choices(population, k=k)\<close>: \<open>k\<close> independent draws with replacement. The
  source of randomness is a sequence of naturals, the \<open>i\<close>-th draw selecting the element at
  index \<open>rnd i mod length population\<close>.
\<close>

definition choices :: "(nat \<Rightarrow> nat) \<Rightarrow> 'a list \<Rightarrow> nat \<Rightarrow> 'a list" where
  "choices rnd population k = map (\<lambda>i. population ! (rnd i mod length population)) [0..<k]"

definition ascii_lowercase :: string where
  "ascii_lowercase = ''abcdefghijklmnopqrstuvwxyz''"

definition digits :: string where
  "digits = ''0123456789''"

section \<open>Helpers shared verbatim by \<^verbatim>\<open>browser.py\<close> and \<^verbatim>\<open>qtbrowser.py\<close>\<close>

text \<open>
  \<^verbatim>\<open>is_valid_url(text)\<close>. The argument may be \<^verbatim>\<open>None\<close> (the GTK clipboard returns
  it when there is no text), which the first test rejects like the empty string.
\<close>

definition is_valid_url :: "string option \<Rightarrow> bool" where
  "is_valid_url text =
     (case text of
        None \<Rightarrow> False
      | Some t \<Rightarrow>
          if t = [] then False
          else startswith_any t [''http://'', ''https://'', ''ftp://'', ''file://''])"

text \<open>
  \<^verbatim>\<open>get_save_path(title, ext)\<close>. \<^verbatim>\<open>os.path.expanduser\<close> is a parameter, and so is the
  random source. The function also creates the directory (\<^verbatim>\<open>os.makedirs\<close>), which does
  not change the value returned.
\<close>

definition safe_char :: "char \<Rightarrow> char" where
  "safe_char c = (if isalnum c \<or> c \<in> set ''-_'' then c else CHR ''_'')"

definition download_dir :: "(string \<Rightarrow> string) \<Rightarrow> environ \<Rightarrow> string" where
  "download_dir expanduser env =
     expanduser (getenv_default env ''DBROWSER_DOWNLOAD_DIR'' ''~/Downloads'')"

definition get_save_path ::
  "(string \<Rightarrow> string) \<Rightarrow> environ \<Rightarrow> (nat \<Rightarrow> nat) \<Rightarrow> string \<Rightarrow> string \<Rightarrow> string" where
  "get_save_path expanduser env rnd title ext =
     (let safe_title = map safe_char title;
          rand_suffix = choices rnd (ascii_lowercase @ digits) 7;
          path = download_dir expanduser env
      in path @ ''/'' @ safe_title @ ''__'' @ rand_suffix @ ''.'' @ ext)"


section \<open>Startup configuration\<close>

text \<open>
  Both scripts read their configuration from the environment once, at startup. The model
  covers the part of the module body up to the window size: the engine context or profile
  and the window geometry. The later settings toggles (JavaScript, images, WebGL, media)
  are straight-line calls that cannot fail and are not modelled. The toolkits are taken
  to be installed in a version that has every function called (the memory pressure
  settings need WebKitGTK 2.34).

  A Python integer handed to a toolkit function is converted to the C type of the
  parameter. Both bindings check the range and raise \<^verbatim>\<open>OverflowError\<close> outside it:
  PyGObject for \<^verbatim>\<open>gint\<close> and \<^verbatim>\<open>guint\<close>, PyQt6 for \<^verbatim>\<open>int\<close>, all of 32 bits.
  \<^verbatim>\<open>OverflowError\<close> is not a subclass of \<^verbatim>\<open>ValueError\<close>.
\<close>

definition fits_int32 :: "int \<Rightarrow> bool" where
  "fits_int32 n = (- 2147483648 \<le> n \<and> n \<le> 2147483647)"

definition fits_uint32 :: "int \<Rightarrow> bool" where
  "fits_uint32 n = (0 \<le> n \<and> n \<le> 4294967295)"

text \<open>\<^verbatim>\<open>w, h = map(int, size.split('x'))\<close>: exactly two fields, each an integer.\<close>

definition parse_size :: "string \<Rightarrow> py_error + (int \<times> int)" where
  "parse_size size_str =
     (case split_on CHR ''x'' size_str of
        [a, b] \<Rightarrow>
          (case py_int a of
             None \<Rightarrow> Inl ValueError
           | Some w \<Rightarrow>
               (case py_int b of
                  None \<Rightarrow> Inl ValueError
                | Some h \<Rightarrow> Inr (w, h)))
      | _ \<Rightarrow> Inl ValueError)"

subsection \<open>\<^verbatim>\<open>browser.py\<close>, lines 71 to 118\<close>

record memory_pressure_settings =
  memory_limit :: int
  kill_threshold :: real
  strict_threshold :: real
  conservative_threshold :: real

text \<open>
  The web context is either the engine's default one or a new one built on a fresh
  \<^verbatim>\<open>WebsiteDataManager\<close>, which carries the memory pressure settings when they were set.
\<close>

datatype web_context =
    Default_context
  | Data_manager_context "memory_pressure_settings option"

record gtk_config =
  ctx :: web_context
  disk_cache_directory :: "string option"
  cache_model_document_viewer :: bool
  shared_secondary_process :: bool
  default_size :: "int \<times> int"

text \<open>
  The body of the \<^verbatim>\<open>try\<close> block, lines 89 to 97. The \<^verbatim>\<open>ValueError\<close> of
  \<^verbatim>\<open>int(memory_limit)\<close> is caught by \<^verbatim>\<open>except ValueError: pass\<close>, which leaves the
  data manager without memory pressure settings. \<^verbatim>\<open>set_memory_limit\<close> takes a
  \<^verbatim>\<open>guint\<close>: for an integer outside that range the call raises
  \<^verbatim>\<open>OverflowError\<close>, which the handler does not catch. The record holds the arguments
  of the four setter calls.
\<close>

definition gtk_memory_pressure :: "string \<Rightarrow> py_error + memory_pressure_settings option" where
  "gtk_memory_pressure limit_str =
     (case py_int limit_str of
        Some mem_mb \<Rightarrow>
          if fits_uint32 mem_mb
          then Inr (Some \<lparr>memory_limit = mem_mb, kill_threshold = 0.95,
                          strict_threshold = 0.85, conservative_threshold = 0.7\<rparr>)
          else Inl OverflowError
      | None \<Rightarrow> Inr None)"

definition gtk_context ::
  "(string \<Rightarrow> string) \<Rightarrow> environ \<Rightarrow> py_error + (web_context \<times> string option)" where
  "gtk_context expanduser env =
     (if truthy (getenv env ''DBROWSER_MEMORY_LIMIT'')
      then (case gtk_memory_pressure (the (getenv env ''DBROWSER_MEMORY_LIMIT'')) of
              Inl e \<Rightarrow> Inl e
            | Inr mps \<Rightarrow> Inr (Data_manager_context mps, None))
      else Inr (Default_context,
                if truthy (getenv env ''DBROWSER_CACHE_DIR'')
                then Some (expanduser (the (getenv env ''DBROWSER_CACHE_DIR'')))
                else None))"

text \<open>
  Lines 116 to 118: the size is parsed and handed to
  \<^verbatim>\<open>win.set_default_size(w, h)\<close>, whose parameters are of type \<^verbatim>\<open>gint\<close>. Neither
  statement stands in a \<^verbatim>\<open>try\<close> block.
\<close>

definition set_default_size :: "int \<Rightarrow> int \<Rightarrow> py_error + (int \<times> int)" where
  "set_default_size w h = (if fits_int32 w \<and> fits_int32 h then Inr (w, h) else Inl OverflowError)"

definition gtk_window_size :: "environ \<Rightarrow> py_error + (int \<times> int)" where
  "gtk_window_size env =
     (case parse_size (getenv_default env ''DBROWSER_SIZE'' ''800x600'') of
        Inl e \<Rightarrow> Inl e
      | Inr (w, h) \<Rightarrow> set_default_size w h)"

definition gtk_startup :: "(string \<Rightarrow> string) \<Rightarrow> environ \<Rightarrow> py_error + gtk_config" where
  "gtk_startup expanduser env =
     (case gtk_context expanduser env of
        Inl e \<Rightarrow> Inl e
      | Inr (c, cache) \<Rightarrow>
          (let no_cache = truthy (getenv env ''DBROWSER_NO_CACHE'');
               low_mem = truthy (getenv env ''DBROWSER_LOW_MEM'')
           in case gtk_window_size env of
                Inl e \<Rightarrow> Inl e
              | Inr wh \<Rightarrow>
                  Inr \<lparr>ctx = c, disk_cache_directory = cache,
                       cache_model_document_viewer = (no_cache \<or> low_mem),
                       shared_secondary_process = low_mem,
                       default_size = wh\<rparr>))"

subsection \<open>\<^verbatim>\<open>qtbrowser.py\<close>, lines 75 to 119\<close>

text \<open>
  The Qt script reads \<^verbatim>\<open>DBROWSER_MEMORY_LIMIT\<close> into the variable
  \<^verbatim>\<open>memory_limit\<close> (line 84) and never uses the variable again. The size is parsed
  on line 90 and handed to \<^verbatim>\<open>win.resize(w, h)\<close> on line 119, whose parameters are of
  type \<^verbatim>\<open>int\<close>; the profile calls between the two lines do not fail.
\<close>

definition resize :: "int \<Rightarrow> int \<Rightarrow> py_error + (int \<times> int)" where
  "resize w h = (if fits_int32 w \<and> fits_int32 h then Inr (w, h) else Inl OverflowError)"

definition qt_window_size :: "environ \<Rightarrow> py_error + (int \<times> int)" where
  "qt_window_size env =
     (case parse_size (getenv_default env ''DBROWSER_SIZE'' ''800x600'') of
        Inl e \<Rightarrow> Inl e
      | Inr (w, h) \<Rightarrow> resize w h)"

record qt_config =
  cache_path :: "string option"
  http_cache_disabled :: bool
  window_size :: "int \<times> int"

definition qt_startup :: "(string \<Rightarrow> string) \<Rightarrow> environ \<Rightarrow> py_error + qt_config" where
  "qt_startup expanduser env =
     (let cache_dir = getenv env ''DBROWSER_CACHE_DIR'';
          no_cache = truthy (getenv env ''DBROWSER_NO_CACHE'');
          low_mem = truthy (getenv env ''DBROWSER_LOW_MEM'');
          mem_limit = getenv env ''DBROWSER_MEMORY_LIMIT''
      in case qt_window_size env of
           Inl e \<Rightarrow> Inl e
         | Inr wh \<Rightarrow>
             Inr \<lparr>cache_path = (if truthy cache_dir then Some (expanduser (the cache_dir)) else None),
                  http_cache_disabled = (no_cache \<or> low_mem),
                  window_size = wh\<rparr>)"

section \<open>Key events and what a handler does\<close>

text \<open>
  A handler's calls into the engine, the toolkit and helper processes are recorded, in
  order, as a list of effects. What the outside world answers (the tmux buffer, the
  clipboard, what the user typed into dmenu, the bookmarks file) is an input of the
  handler, collected in the record \<open>world\<close>. The helper programs are assumed to be
  installed, so that \<^verbatim>\<open>subprocess.run\<close> itself returns.
\<close>

datatype callback =
    On_title_pdf | On_title_html | On_title_png | Copy_text
  | Save_html | Save_screenshot

datatype zoom = Zoom_relative real | Zoom_absolute real

datatype find_flag = CASE_INSENSITIVE | FindCaseSensitively | FindBackward

datatype effect =
    Print string
  | Print_debug
  | Print_zoom
  | Show_help
  | Quit_main_loop
  | Reload_page
  | Show_inspector
  | Run_javascript string "callback option"
  | Load_uri string
  | Go_back
  | Go_forward
  | Subprocess_run "string list" "string option"
  | Clipboard_set_text string
  | Set_zoom zoom
  | Find_search string "find_flag set" nat
  | Find_search_next
  | Find_search_previous
  | Find_text string "find_flag set"
  | Makedirs string
  | Print_to_pdf string

datatype outcome = Return_True | Return_False | Return_None | Raise py_error

record world =
  debug :: "string option"
  environment :: environ
  expand_user :: "string \<Rightarrow> string"
  tmux_buffer :: string
  clipboard :: "string option"
  dmenu_stdout :: string
  read_file :: "string \<Rightarrow> py_error + string"
  current_uri :: string
  page_title :: string
  random_source :: "nat \<Rightarrow> nat"

text \<open>The URIs handed to the engine's load operation, and the lines printed.\<close>

fun loaded :: "effect list \<Rightarrow> string list" where
  "loaded [] = []"
| "loaded (Load_uri u # es) = u # loaded es"
| "loaded (e # es) = loaded es"

fun printed :: "effect list \<Rightarrow> string list" where
  "printed [] = []"
| "printed (Print m # es) = m # printed es"
| "printed (e # es) = printed es"

fun dmenu_calls :: "effect list \<Rightarrow> nat" where
  "dmenu_calls [] = 0"
| "dmenu_calls (Subprocess_run argv inp # es) =
     (if take 1 argv = [''dmenu''] then Suc (dmenu_calls es) else dmenu_calls es)"
| "dmenu_calls (e # es) = dmenu_calls es"

text \<open>The keybindings of the help text, which is the same in both scripts.\<close>

datatype action =
    Help | Quit | Reload | Inspector | Print_dialog | Save_pdf | Save_as_html | Screenshot
  | Copy_page_text | Load_tmux | Load_clipboard | Change_url | Bookmarks
  | Back | Forward | Scroll_down | Scroll_up | Page_down | Page_up
  | Copy_url | Zoom_in | Zoom_out | Zoom_reset | Find | Find_next | Find_previous

text \<open>The pieces of code that the two \<^verbatim>\<open>on_key\<close> functions have in common.\<close>

definition not_a_url_text :: "string option \<Rightarrow> string" where
  "not_a_url_text url_text =
     (case url_text of
        None \<Rightarrow> ''(empty)''
      | Some t \<Rightarrow> if t \<noteq> [] then take 50 t else ''(empty)'')"

definition load_from_tmux :: "world \<Rightarrow> effect list" where
  "load_from_tmux wld =
     (let url_text = strip (tmux_buffer wld)
      in Subprocess_run [''tmux'', ''show-buffer''] None #
         (if is_valid_url (Some url_text)
          then [Print (''Loading from tmux buffer: '' @ url_text), Load_uri url_text]
          else [Print (''Tmux buffer is not a valid URL: '' @ not_a_url_text (Some url_text) @ ''...'')]))"

definition load_from_clipboard :: "string option \<Rightarrow> effect list" where
  "load_from_clipboard url_text =
     (if is_valid_url url_text
      then [Print (''Loading from clipboard: '' @ the url_text), Load_uri (the url_text)]
      else [Print (''Clipboard is not a valid URL: '' @ not_a_url_text url_text @ ''...'')])"

definition change_url :: "world \<Rightarrow> effect list" where
  "change_url wld =
     (let new_url = strip (dmenu_stdout wld)
      in [Print ''Opening dmenu for URL...'',
          Subprocess_run [''dmenu'', ''-p'', ''URL''] (Some (current_uri wld))] @
         (if new_url \<noteq> []
          then [Print (''Navigating to: '' @ new_url), Load_uri new_url]
          else []))"

definition links_path :: "world \<Rightarrow> string" where
  "links_path wld =
     (if truthy (getenv (environment wld) ''BOOKMARKS_FILE'')
      then the (getenv (environment wld) ''BOOKMARKS_FILE'')
      else expand_user wld ''~/data/links.txt'')"

definition open_bookmark :: "world \<Rightarrow> effect list \<times> outcome" where
  "open_bookmark wld =
     (case read_file wld (links_path wld) of
        Inl FileNotFoundError \<Rightarrow>
          ([Print (''Links file not found: '' @ links_path wld)], Return_None)
      | Inl e \<Rightarrow> ([], Raise e)
      | Inr links \<Rightarrow>
          (let selected = strip (dmenu_stdout wld)
           in (Subprocess_run [''dmenu'', ''-i'', ''-l'', ''20'', ''-p'', ''Open link:''] (Some links) #
               (if selected \<noteq> []
                then [Print (''Opening: '' @ selected), Load_uri selected]
                else []),
               Return_True)))"

definition copy_to_tmux_and_clipboard :: "string \<Rightarrow> effect list" where
  "copy_to_tmux_and_clipboard text =
     [Subprocess_run [''tmux'', ''set-buffer'', text] None, Clipboard_set_text text]"

section \<open>The GTK shell: \<^verbatim>\<open>on_key\<close> of \<^verbatim>\<open>browser.py\<close>\<close>

text \<open>
  A GDK key value is the character itself for the printable keys (\<^verbatim>\<open>Gdk.KEY_q\<close> is
  \<open>q\<close>, \<^verbatim>\<open>Gdk.KEY_P\<close> is \<open>P\<close>) and a symbol of its own for the function and arrow
  keys. The event's \<^verbatim>\<open>state\<close> is a set of modifier flags; \<^verbatim>\<open>e.state & m\<close> is true
  when the intersection is not empty, and \<^verbatim>\<open>a | b\<close> is the union.
\<close>

datatype gdk_keyval =
    KEY_char char
  | KEY_F1 | KEY_F5 | KEY_F12 | KEY_Left | KEY_Right
  | KEY_other nat

datatype gdk_modifier =
    SHIFT_MASK | LOCK_MASK | CONTROL_MASK | MOD1_MASK | MOD2_MASK | MOD4_MASK

record gdk_event =
  keyval :: gdk_keyval
  state :: "gdk_modifier set"

abbreviation KEY_q :: gdk_keyval where "KEY_q \<equiv> KEY_char CHR ''q''"
abbreviation KEY_r :: gdk_keyval where "KEY_r \<equiv> KEY_char CHR ''r''"
abbreviation KEY_p :: gdk_keyval where "KEY_p \<equiv> KEY_char CHR ''p''"
abbreviation KEY_P :: gdk_keyval where "KEY_P \<equiv> KEY_char CHR ''P''"
abbreviation KEY_s :: gdk_keyval where "KEY_s \<equiv> KEY_char CHR ''s''"
abbreviation KEY_S :: gdk_keyval where "KEY_S \<equiv> KEY_char CHR ''S''"
abbreviation KEY_C :: gdk_keyval where "KEY_C \<equiv> KEY_char CHR ''C''"
abbreviation KEY_g :: gdk_keyval where "KEY_g \<equiv> KEY_char CHR ''g''"
abbreviation KEY_G :: gdk_keyval where "KEY_G \<equiv> KEY_char CHR ''G''"
abbreviation KEY_l :: gdk_keyval where "KEY_l \<equiv> KEY_char CHR ''l''"
abbreviation KEY_b :: gdk_keyval where "KEY_b \<equiv> KEY_char CHR ''b''"
abbreviation KEY_h :: gdk_keyval where "KEY_h \<equiv> KEY_char CHR ''h''"
abbreviation KEY_j :: gdk_keyval where "KEY_j \<equiv> KEY_char CHR ''j''"
abbreviation KEY_k :: gdk_keyval where "KEY_k \<equiv> KEY_char CHR ''k''"
abbreviation KEY_u :: gdk_keyval where "KEY_u \<equiv> KEY_char CHR ''u''"
abbreviation KEY_U :: gdk_keyval where "KEY_U \<equiv> KEY_char CHR ''U''"
abbreviation KEY_i :: gdk_keyval where "KEY_i \<equiv> KEY_char CHR ''i''"
abbreviation KEY_f :: gdk_keyval where "KEY_f \<equiv> KEY_char CHR ''f''"
abbreviation KEY_n :: gdk_keyval where "KEY_n \<equiv> KEY_char CHR ''n''"
abbreviation KEY_N :: gdk_keyval where "KEY_N \<equiv> KEY_char CHR ''N''"
abbreviation KEY_comma :: gdk_keyval where "KEY_comma \<equiv> KEY_char CHR '',''"
abbreviation KEY_period :: gdk_keyval where "KEY_period \<equiv> KEY_char CHR ''.''"
abbreviation KEY_plus :: gdk_keyval where "KEY_plus \<equiv> KEY_char CHR ''+''"
abbreviation KEY_equal :: gdk_keyval where "KEY_equal \<equiv> KEY_char CHR ''=''"
abbreviation KEY_minus :: gdk_keyval where "KEY_minus \<equiv> KEY_char CHR ''-''"
abbreviation KEY_0 :: gdk_keyval where "KEY_0 \<equiv> KEY_char CHR ''0''"

definition held :: "gdk_event \<Rightarrow> gdk_modifier set \<Rightarrow> bool" where
  "held e m = (state e \<inter> m \<noteq> {})"

text \<open>
  The conditions of the \<^verbatim>\<open>if\<close>/\<^verbatim>\<open>elif\<close> chain of lines 184 to 335, in the order of
  the source, each with the keybinding its branch implements; \<^const>\<open>None\<close> is the final
  \<^verbatim>\<open>else\<close>.
\<close>

definition gtk_dispatch :: "gdk_event \<Rightarrow> action option" where
  "gtk_dispatch e =
    (if keyval e = KEY_F1 then Some Help
     else if keyval e = KEY_q \<and> held e {CONTROL_MASK} then Some Quit
     else if keyval e = KEY_F5 \<or> (keyval e = KEY_r \<and> held e {CONTROL_MASK}) then Some Reload
     else if keyval e = KEY_F12 then Some Inspector
     else if keyval e = KEY_p \<and> held e {CONTROL_MASK} \<and> \<not> held e {SHIFT_MASK}
       then Some Print_dialog
     else if keyval e = KEY_P \<and> held e ({CONTROL_MASK} \<union> {SHIFT_MASK}) then Some Save_pdf
     else if keyval e = KEY_s \<and> held e {CONTROL_MASK} \<and> \<not> held e {SHIFT_MASK}
       then Some Save_as_html
     else if keyval e = KEY_S \<and> held e ({CONTROL_MASK} \<union> {SHIFT_MASK}) then Some Screenshot
     else if keyval e = KEY_C \<and> held e ({CONTROL_MASK} \<union> {SHIFT_MASK}) then Some Copy_page_text
     else if keyval e = KEY_g \<and> held e {CONTROL_MASK} \<and> \<not> held e {SHIFT_MASK}
       then Some Load_tmux
     else if keyval e = KEY_G \<and> held e ({CONTROL_MASK} \<union> {SHIFT_MASK}) then Some Load_clipboard
     else if keyval e = KEY_l \<and> held e {CONTROL_MASK} \<and> \<not> held e {SHIFT_MASK}
       then Some Change_url
     else if keyval e = KEY_b \<and> held e {CONTROL_MASK} then Some Bookmarks
     else if keyval e = KEY_Left \<and> held e {MOD1_MASK} then Some Back
     else if keyval e = KEY_Right \<and> held e {MOD1_MASK} then Some Forward
     else if keyval e = KEY_h \<and> held e {MOD1_MASK} then Some Back
     else if keyval e = KEY_l \<and> held e {MOD1_MASK} then Some Forward
     else if keyval e = KEY_j \<and> held e {MOD1_MASK} then Some Scroll_down
     else if keyval e = KEY_k \<and> held e {MOD1_MASK} then Some Scroll_up
     else if keyval e = KEY_u \<and> held e {MOD1_MASK} then Some Page_down
     else if keyval e = KEY_i \<and> held e {MOD1_MASK} then Some Page_up
     else if keyval e = KEY_comma \<and> held e {MOD1_MASK} then Some Back
     else if keyval e = KEY_period \<and> held e {MOD1_MASK} then Some Forward
     else if keyval e = KEY_U \<and> held e ({CONTROL_MASK} \<union> {SHIFT_MASK}) then Some Copy_url
     else if keyval e \<in> set [KEY_plus, KEY_equal] \<and> held e {CONTROL_MASK} then Some Zoom_in
     else if keyval e = KEY_minus \<and> held e {CONTROL_MASK} then Some Zoom_out
     else if keyval e = KEY_0 \<and> held e {CONTROL_MASK} then Some Zoom_reset
     else if keyval e = KEY_f \<and> held e {CONTROL_MASK} then Some Find
     else if keyval e = KEY_n \<and> held e {CONTROL_MASK} \<and> \<not> held e {SHIFT_MASK}
       then Some Find_next
     else if keyval e = KEY_N \<and> held e {CONTROL_MASK} then Some Find_previous
     else None)"

text \<open>
  The bodies of the branches. The first component is the find term after the branch
  (\<^verbatim>\<open>find_text[0]\<close>), the second what the branch did, the third how it left the function:
  every branch falls through to the final \<^verbatim>\<open>return True\<close>, except the bare
  \<^verbatim>\<open>return\<close> of line 275.
\<close>

definition gtk_find :: "world \<Rightarrow> string \<Rightarrow> string \<times> effect list" where
  "gtk_find wld find_text =
     (let search = strip (dmenu_stdout wld)
      in if search \<noteq> []
         then (search,
               [Subprocess_run [''dmenu'', ''-p'', ''Find''] (Some find_text),
                Find_search search {CASE_INSENSITIVE} 9999,
                Print (''Searching: '' @ search)])
         else (find_text, [Subprocess_run [''dmenu'', ''-p'', ''Find''] (Some find_text)]))"

fun gtk_branch :: "world \<Rightarrow> string \<Rightarrow> action \<Rightarrow> string \<times> effect list \<times> outcome" where
  "gtk_branch wld ft Help = (ft, [Show_help], Return_True)"
| "gtk_branch wld ft Quit = (ft, [Print ''Quitting...'', Quit_main_loop], Return_True)"
| "gtk_branch wld ft Reload = (ft, [Print ''Reloading...'', Reload_page], Return_True)"
| "gtk_branch wld ft Inspector = (ft, [Print ''Opening inspector...'', Show_inspector], Return_True)"
| "gtk_branch wld ft Print_dialog =
     (ft, [Print ''Printing...'', Run_javascript ''window.print()'' None], Return_True)"
| "gtk_branch wld ft Save_pdf =
     (ft, [Print ''Saving PDF...'', Run_javascript ''document.title'' (Some On_title_pdf)], Return_True)"
| "gtk_branch wld ft Save_as_html =
     (ft, [Print ''Saving HTML...'', Run_javascript ''document.title'' (Some On_title_html)], Return_True)"
| "gtk_branch wld ft Screenshot =
     (ft, [Print ''Saving screenshot...'', Run_javascript ''document.title'' (Some On_title_png)],
      Return_True)"
| "gtk_branch wld ft Copy_page_text =
     (ft, [Print ''Copying page text to tmux and clipboard...'',
           Run_javascript ''document.body.innerText'' (Some Copy_text)], Return_True)"
| "gtk_branch wld ft Load_tmux = (ft, load_from_tmux wld, Return_True)"
| "gtk_branch wld ft Load_clipboard = (ft, load_from_clipboard (clipboard wld), Return_True)"
| "gtk_branch wld ft Change_url = (ft, change_url wld, Return_True)"
| "gtk_branch wld ft Bookmarks = (ft, open_bookmark wld)"
| "gtk_branch wld ft Back = (ft, [Print ''Going back...'', Go_back], Return_True)"
| "gtk_branch wld ft Forward = (ft, [Print ''Going forward...'', Go_forward], Return_True)"
| "gtk_branch wld ft Scroll_down =
     (ft, [Run_javascript ''window.scrollBy(0, 100)'' None], Return_True)"
| "gtk_branch wld ft Scroll_up =
     (ft, [Run_javascript ''window.scrollBy(0, -100)'' None], Return_True)"
| "gtk_branch wld ft Page_down =
     (ft, [Run_javascript ''window.scrollBy(0, window.innerHeight)'' None], Return_True)"
| "gtk_branch wld ft Page_up =
     (ft, [Run_javascript ''window.scrollBy(0, -window.innerHeight)'' None], Return_True)"
| "gtk_branch wld ft Copy_url =
     (ft, copy_to_tmux_and_clipboard (current_uri wld) @
          [Print (''Copied URL to tmux and clipboard: '' @ current_uri wld)], Return_True)"
| "gtk_branch wld ft Zoom_in = (ft, [Set_zoom (Zoom_relative 0.1), Print_zoom], Return_True)"
| "gtk_branch wld ft Zoom_out = (ft, [Set_zoom (Zoom_relative (- 0.1)), Print_zoom], Return_True)"
| "gtk_branch wld ft Zoom_reset = (ft, [Set_zoom (Zoom_absolute 1.0), Print ''Zoom: 1.0''], Return_True)"
| "gtk_branch wld ft Find = (fst (gtk_find wld ft), snd (gtk_find wld ft), Return_True)"
| "gtk_branch wld ft Find_next = (ft, [Find_search_next, Print ''Find next''], Return_True)"
| "gtk_branch wld ft Find_previous =
     (ft, [Find_search_previous, Print ''Find previous''], Return_True)"

definition debug_print :: "world \<Rightarrow> effect list" where
  "debug_print wld = (if truthy (debug wld) then [Print_debug] else [])"

definition prepend ::
  "effect list \<Rightarrow> string \<times> effect list \<times> outcome \<Rightarrow> string \<times> effect list \<times> outcome" where
  "prepend es r = (fst r, es @ fst (snd r), snd (snd r))"

definition gtk_on_key :: "world \<Rightarrow> string \<Rightarrow> gdk_event \<Rightarrow> string \<times> effect list \<times> outcome" where
  "gtk_on_key wld find_text e =
     prepend (debug_print wld)
       (case gtk_dispatch e of
          None \<Rightarrow> (find_text, [], Return_False)
        | Some a \<Rightarrow> gtk_branch wld find_text a)"

section \<open>The Qt shell: \<^verbatim>\<open>on_key\<close> and the event filter of \<^verbatim>\<open>qtbrowser.py\<close>\<close>

text \<open>
  A Qt key code is the upper-case character for the letter keys (\<^verbatim>\<open>Qt.Key.Key_Q\<close> is
  \<open>Q\<close>, with or without Shift) and the character itself for digits and punctuation.
  \<^verbatim>\<open>event.modifiers()\<close> is a set of flags that the handler compares for equality.
\<close>

datatype qt_key =
    Key_char char
  | Key_F1 | Key_F5 | Key_F12 | Key_Left | Key_Right
  | Key_other nat

datatype qt_modifier =
    ShiftModifier | ControlModifier | AltModifier | MetaModifier | KeypadModifier
  | GroupSwitchModifier

record qt_event =
  key :: qt_key
  modifiers :: "qt_modifier set"

abbreviation Key_Q :: qt_key where "Key_Q \<equiv> Key_char CHR ''Q''"
abbreviation Key_R :: qt_key where "Key_R \<equiv> Key_char CHR ''R''"
abbreviation Key_P :: qt_key where "Key_P \<equiv> Key_char CHR ''P''"
abbreviation Key_S :: qt_key where "Key_S \<equiv> Key_char CHR ''S''"
abbreviation Key_C :: qt_key where "Key_C \<equiv> Key_char CHR ''C''"
abbreviation Key_G :: qt_key where "Key_G \<equiv> Key_char CHR ''G''"
abbreviation Key_L :: qt_key where "Key_L \<equiv> Key_char CHR ''L''"
abbreviation Key_B :: qt_key where "Key_B \<equiv> Key_char CHR ''B''"
abbreviation Key_H :: qt_key where "Key_H \<equiv> Key_char CHR ''H''"
abbreviation Key_J :: qt_key where "Key_J \<equiv> Key_char CHR ''J''"
abbreviation Key_K :: qt_key where "Key_K \<equiv> Key_char CHR ''K''"
abbreviation Key_U :: qt_key where "Key_U \<equiv> Key_char CHR ''U''"
abbreviation Key_I :: qt_key where "Key_I \<equiv> Key_char CHR ''I''"
abbreviation Key_F :: qt_key where "Key_F \<equiv> Key_char CHR ''F''"
abbreviation Key_N :: qt_key where "Key_N \<equiv> Key_char CHR ''N''"
abbreviation Key_Comma :: qt_key where "Key_Comma \<equiv> Key_char CHR '',''"
abbreviation Key_Period :: qt_key where "Key_Period \<equiv> Key_char CHR ''.''"
abbreviation Key_Plus :: qt_key where "Key_Plus \<equiv> Key_char CHR ''+''"
abbreviation Key_Equal :: qt_key where "Key_Equal \<equiv> Key_char CHR ''=''"
abbreviation Key_Minus :: qt_key where "Key_Minus \<equiv> Key_char CHR ''-''"
abbreviation Key_0 :: qt_key where "Key_0 \<equiv> Key_char CHR ''0''"

text \<open>The conditions of lines 245 to 433, in the order of the source.\<close>

definition qt_dispatch :: "qt_event \<Rightarrow> action option" where
  "qt_dispatch e =
    (if key e = Key_F1 then Some Help
     else if key e = Key_Q \<and> modifiers e = {ControlModifier} then Some Quit
     else if key e = Key_F5 \<or> (key e = Key_R \<and> modifiers e = {ControlModifier}) then Some Reload
     else if key e = Key_F12 then Some Inspector
     else if key e = Key_P \<and> modifiers e = {ControlModifier} then Some Print_dialog
     else if key e = Key_P \<and> modifiers e = {ControlModifier} \<union> {ShiftModifier} then Some Save_pdf
     else if key e = Key_S \<and> modifiers e = {ControlModifier} then Some Save_as_html
     else if key e = Key_S \<and> modifiers e = {ControlModifier} \<union> {ShiftModifier} then Some Screenshot
     else if key e = Key_C \<and> modifiers e = {ControlModifier} \<union> {ShiftModifier}
       then Some Copy_page_text
     else if key e = Key_G \<and> modifiers e = {ControlModifier} then Some Load_tmux
     else if key e = Key_G \<and> modifiers e = {ControlModifier} \<union> {ShiftModifier}
       then Some Load_clipboard
     else if key e = Key_L \<and> modifiers e = {ControlModifier} then Some Change_url
     else if key e = Key_B \<and> modifiers e = {ControlModifier} then Some Bookmarks
     else if key e = Key_Left \<and> modifiers e = {AltModifier} then Some Back
     else if key e = Key_Right \<and> modifiers e = {AltModifier} then Some Forward
     else if key e = Key_H \<and> modifiers e = {AltModifier} then Some Back
     else if key e = Key_L \<and> modifiers e = {AltModifier} then Some Forward
     else if key e = Key_J \<and> modifiers e = {AltModifier} then Some Scroll_down
     else if key e = Key_K \<and> modifiers e = {AltModifier} then Some Scroll_up
     else if key e = Key_U \<and> modifiers e = {AltModifier} then Some Page_down
     else if key e = Key_I \<and> modifiers e = {AltModifier} then Some Page_up
     else if key e = Key_Comma \<and> modifiers e = {AltModifier} then Some Back
     else if key e = Key_Period \<and> modifiers e = {AltModifier} then Some Forward
     else if key e = Key_U \<and> modifiers e = {ControlModifier} \<union> {ShiftModifier} then Some Copy_url
     else if (key e = Key_Plus \<or> key e = Key_Equal) \<and> modifiers e = {ControlModifier}
       then Some Zoom_in
     else if key e = Key_Minus \<and> modifiers e = {ControlModifier} then Some Zoom_out
     else if key e = Key_0 \<and> modifiers e = {ControlModifier} then Some Zoom_reset
     else if key e = Key_F \<and> modifiers e = {ControlModifier} then Some Find
     else if key e = Key_N \<and> modifiers e = {ControlModifier} then Some Find_next
     else if key e = Key_N \<and> modifiers e = {ControlModifier} \<union> {ShiftModifier}
       then Some Find_previous
     else None)"

definition qt_find :: "world \<Rightarrow> string \<Rightarrow> string \<times> effect list" where
  "qt_find wld find_text =
     (let search = strip (dmenu_stdout wld)
      in if search \<noteq> []
         then (search,
               [Subprocess_run [''dmenu'', ''-p'', ''Find''] (Some find_text),
                Find_text search {FindCaseSensitively},
                Print (''Searching: '' @ search)])
         else (find_text, [Subprocess_run [''dmenu'', ''-p'', ''Find''] (Some find_text)]))"

definition title_or_page :: "string \<Rightarrow> string" where
  "title_or_page t = (if t \<noteq> [] then t else ''page'')"

definition qt_save_pdf :: "world \<Rightarrow> effect list" where
  "qt_save_pdf wld =
     (let dest = get_save_path (expand_user wld) (environment wld) (random_source wld)
                   (title_or_page (page_title wld)) ''pdf''
      in [Makedirs (download_dir (expand_user wld) (environment wld)),
          Print (''Saving PDF to '' @ dest @ ''...''),
          Print_to_pdf dest])"

text \<open>\<^verbatim>\<open>QApplication.clipboard().text()\<close> is a string, empty when there is no text.\<close>

definition get_clipboard_text :: "world \<Rightarrow> string" where
  "get_clipboard_text wld = (case clipboard wld of None \<Rightarrow> [] | Some t \<Rightarrow> t)"

fun qt_branch :: "world \<Rightarrow> string \<Rightarrow> action \<Rightarrow> string \<times> effect list \<times> outcome" where
  "qt_branch wld ft Help = (ft, [Show_help], Return_True)"
| "qt_branch wld ft Quit = (ft, [Print ''Quitting...'', Quit_main_loop], Return_True)"
| "qt_branch wld ft Reload = (ft, [Print ''Reloading...'', Reload_page], Return_True)"
| "qt_branch wld ft Inspector = (ft, [Print ''Opening inspector...'', Show_inspector], Return_True)"
| "qt_branch wld ft Print_dialog =
     (ft, [Print ''Printing...'', Run_javascript ''window.print()'' None], Return_True)"
| "qt_branch wld ft Save_pdf = (ft, qt_save_pdf wld, Return_True)"
| "qt_branch wld ft Save_as_html =
     (ft, [Run_javascript ''document.title'' (Some Save_html)], Return_True)"
| "qt_branch wld ft Screenshot =
     (ft, [Run_javascript ''document.title'' (Some Save_screenshot)], Return_True)"
| "qt_branch wld ft Copy_page_text =
     (ft, [Print ''Copying page text to tmux and clipboard...'',
           Run_javascript ''document.body.innerText'' (Some Copy_text)], Return_True)"
| "qt_branch wld ft Load_tmux = (ft, load_from_tmux wld, Return_True)"
| "qt_branch wld ft Load_clipboard =
     (ft, load_from_clipboard (Some (get_clipboard_text wld)), Return_True)"
| "qt_branch wld ft Change_url = (ft, change_url wld, Return_True)"
| "qt_branch wld ft Bookmarks = (ft, open_bookmark wld)"
| "qt_branch wld ft Back = (ft, [Print ''Going back...'', Go_back], Return_True)"
| "qt_branch wld ft Forward = (ft, [Print ''Going forward...'', Go_forward], Return_True)"
| "qt_branch wld ft Scroll_down =
     (ft, [Run_javascript ''window.scrollBy(0, 100)'' None], Return_True)"
| "qt_branch wld ft Scroll_up =
     (ft, [Run_javascript ''window.scrollBy(0, -100)'' None], Return_True)"
| "qt_branch wld ft Page_down =
     (ft, [Run_javascript ''window.scrollBy(0, window.innerHeight)'' None], Return_True)"
| "qt_branch wld ft Page_up =
     (ft, [Run_javascript ''window.scrollBy(0, -window.innerHeight)'' None], Return_True)"
| "qt_branch wld ft Copy_url =
     (ft, copy_to_tmux_and_clipboard (current_uri wld) @
          [Print (''Copied URL to tmux and clipboard: '' @ current_uri wld)], Return_True)"
| "qt_branch wld ft Zoom_in = (ft, [Set_zoom (Zoom_relative 0.1), Print_zoom], Return_True)"
| "qt_branch wld ft Zoom_out = (ft, [Set_zoom (Zoom_relative (- 0.1)), Print_zoom], Return_True)"
| "qt_branch wld ft Zoom_reset = (ft, [Set_zoom (Zoom_absolute 1.0), Print ''Zoom: 1.0''], Return_True)"
| "qt_branch wld ft Find = (fst (qt_find wld ft), snd (qt_find wld ft), Return_True)"
| "qt_branch wld ft Find_next =
     (ft, if ft \<noteq> [] then [Find_text ft {FindCaseSensitively}, Print ''Find next''] else [],
      Return_True)"
| "qt_branch wld ft Find_previous =
     (ft, if ft \<noteq> []
          then [Find_text ft ({FindBackward} \<union> {FindCaseSensitively}), Print ''Find previous'']
          else [],
      Return_True)"

definition qt_on_key :: "world \<Rightarrow> string \<Rightarrow> qt_event \<Rightarrow> string \<times> effect list \<times> outcome" where
  "qt_on_key wld find_text e =
     prepend (debug_print wld)
       (case qt_dispatch e of
          None \<Rightarrow> (find_text, [], Return_False)
        | Some a \<Rightarrow> qt_branch wld find_text a)"

text \<open>
  \<^verbatim>\<open>KeyFilter.eventFilter\<close>: the event is consumed when \<^verbatim>\<open>on_key\<close> returned a true
  value; \<^verbatim>\<open>None\<close> is not one. An exception leaves the filter as it left the handler.
\<close>

datatype q_event = KeyPress qt_event | Other_event

fun eventFilter :: "world \<Rightarrow> string \<Rightarrow> q_event \<Rightarrow> string \<times> effect list \<times> outcome" where
  "eventFilter wld ft (KeyPress e) =
     (let r = qt_on_key wld ft e
      in (fst r, fst (snd r),
          (case snd (snd r) of
             Return_True \<Rightarrow> Return_True
           | Raise err \<Rightarrow> Raise err
           | _ \<Rightarrow> Return_False)))"
| "eventFilter wld ft Other_event = (ft, [], Return_False)"

text \<open>The find term at startup: \<^verbatim>\<open>find_text = ['']\<close> in both scripts.\<close>

definition initial_find_text :: string where
  "initial_find_text = []"

section \<open>The pending initial URL of the Qt shell\<close>

text \<open>
  Lines 93 to 103 and 202 to 218 of \<^verbatim>\<open>qtbrowser.py\<close>: the slots \<^verbatim>\<open>_pending_url[0]\<close>
  and \<^verbatim>\<open>_has_loaded[0]\<close>, and whether \<^verbatim>\<open>poll_timer\<close> is running. A Python string or
  \<^verbatim>\<open>None\<close> used as a condition is \<^const>\<open>truthy\<close>.
\<close>

record poll_state =
  pending_url :: "string option"
  has_loaded :: bool
  timer_active :: bool

definition initial_poll_state :: poll_state where
  "initial_poll_state = \<lparr>pending_url = None, has_loaded = False, timer_active = True\<rparr>"

definition showEvent :: "string \<Rightarrow> poll_state \<Rightarrow> poll_state" where
  "showEvent start_url st =
     (if start_url \<noteq> [] then st\<lparr>pending_url := Some start_url\<rparr> else st)"

text \<open>
  \<^verbatim>\<open>try_load_url()\<close>; \<open>is_loading\<close> is what \<^verbatim>\<open>page.isLoading()\<close> answers after the
  call of \<^verbatim>\<open>web.load\<close>.
\<close>

definition try_load_url :: "bool \<Rightarrow> poll_state \<Rightarrow> effect list \<times> poll_state" where
  "try_load_url is_loading st =
     (if truthy (pending_url st) \<and> \<not> has_loaded st
      then ([Load_uri (the (pending_url st))],
            if is_loading
            then st\<lparr>has_loaded := True, pending_url := None, timer_active := False\<rparr>
            else st)
      else ([], st))"

text \<open>
  The events that reach these slots: the view is shown, or the timer's interval elapses
  (the slot \<^verbatim>\<open>try_load_url\<close> runs only while the timer is active).
\<close>

datatype poll_event = Show | Timeout bool

fun poll_step :: "string \<Rightarrow> poll_state \<Rightarrow> poll_event \<Rightarrow> effect list \<times> poll_state" where
  "poll_step start_url st Show = ([], showEvent start_url st)"
| "poll_step start_url st (Timeout is_loading) =
     (if timer_active st then try_load_url is_loading st else ([], st))"

fun poll_run :: "string \<Rightarrow> poll_state \<Rightarrow> poll_event list \<Rightarrow> effect list \<times> poll_state" where
  "poll_run start_url st [] = ([], st)"
| "poll_run start_url st (ev # evs) =
     (let (es, st') = poll_step start_url st ev;
          (es', st'') = poll_run start_url st' evs
      in (es @ es', st''))"

section \<open>Notions used to state the properties\<close>

text \<open>
  A text is URL-shaped when it is not empty and begins with one of the four schemes. This
  is the wording of the help text and of the docstring, to be compared with
  \<^const>\<open>is_valid_url\<close>.
\<close>

definition url_shaped :: "string \<Rightarrow> bool" where
  "url_shaped t =
     (t \<noteq> [] \<and>
      (take 7 t = ''http://'' \<or> take 8 t = ''https://'' \<or>
       take 6 t = ''ftp://'' \<or> take 7 t = ''file://''))"

text \<open>The text after the last \<open>/\<close> of a path, and the text before that \<open>/\<close>.\<close>

definition after_last_slash :: "string \<Rightarrow> string" where
  "after_last_slash p = rev (takeWhile (\<lambda>c. c \<noteq> CHR ''/'') (rev p))"

definition before_last_slash :: "string \<Rightarrow> string" where
  "before_last_slash p = rev (drop 1 (dropWhile (\<lambda>c. c \<noteq> CHR ''/'') (rev p)))"

text \<open>
  The same key press as each toolkit reports it. GDK reports the shifted character and
  the modifier bits; Qt reports the upper-case letter for a letter key, and the modifiers
  Shift, Control, Alt (GDK's \<open>MOD1\<close>) and Meta (GDK's \<open>MOD4\<close>). Caps Lock and Num Lock
  are GDK state bits only.
\<close>

definition ascii_uppercase :: string where
  "ascii_uppercase = ''ABCDEFGHIJKLMNOPQRSTUVWXYZ''"

definition to_upper :: "char \<Rightarrow> char" where
  "to_upper c =
    (if c = CHR ''a'' then CHR ''A''
     else if c = CHR ''b'' then CHR ''B''
     else if c = CHR ''c'' then CHR ''C''
     else if c = CHR ''d'' then CHR ''D''
     else if c = CHR ''e'' then CHR ''E''
     else if c = CHR ''f'' then CHR ''F''
     else if c = CHR ''g'' then CHR ''G''
     else if c = CHR ''h'' then CHR ''H''
     else if c = CHR ''i'' then CHR ''I''
     else if c = CHR ''j'' then CHR ''J''
     else if c = CHR ''k'' then CHR ''K''
     else if c = CHR ''l'' then CHR ''L''
     else if c = CHR ''m'' then CHR ''M''
     else if c = CHR ''n'' then CHR ''N''
     else if c = CHR ''o'' then CHR ''O''
     else if c = CHR ''p'' then CHR ''P''
     else if c = CHR ''q'' then CHR ''Q''
     else if c = CHR ''r'' then CHR ''R''
     else if c = CHR ''s'' then CHR ''S''
     else if c = CHR ''t'' then CHR ''T''
     else if c = CHR ''u'' then CHR ''U''
     else if c = CHR ''v'' then CHR ''V''
     else if c = CHR ''w'' then CHR ''W''
     else if c = CHR ''x'' then CHR ''X''
     else if c = CHR ''y'' then CHR ''Y''
     else if c = CHR ''z'' then CHR ''Z''
     else c)"

fun qt_key_of :: "gdk_keyval \<Rightarrow> qt_key" where
  "qt_key_of (KEY_char c) = Key_char (to_upper c)"
| "qt_key_of KEY_F1 = Key_F1"
| "qt_key_of KEY_F5 = Key_F5"
| "qt_key_of KEY_F12 = Key_F12"
| "qt_key_of KEY_Left = Key_Left"
| "qt_key_of KEY_Right = Key_Right"
| "qt_key_of (KEY_other n) = Key_other n"

definition qt_modifiers_of :: "gdk_modifier set \<Rightarrow> qt_modifier set" where
  "qt_modifiers_of s =
     (if SHIFT_MASK \<in> s then {ShiftModifier} else {}) \<union>
     (if CONTROL_MASK \<in> s then {ControlModifier} else {}) \<union>
     (if MOD1_MASK \<in> s then {AltModifier} else {}) \<union>
     (if MOD4_MASK \<in> s then {MetaModifier} else {})"

definition qt_event_of :: "gdk_event \<Rightarrow> qt_event" where
  "qt_event_of e = \<lparr>key = qt_key_of (keyval e), modifiers = qt_modifiers_of (state e)\<rparr>"

text \<open>
  The key presses of the help text: no modifier, Ctrl alone or Alt alone with an unshifted
  key value, or Ctrl and Shift together with an upper-case letter.
\<close>

definition only_held :: "gdk_event \<Rightarrow> gdk_modifier set \<Rightarrow> bool" where
  "only_held e m = (state e \<inter> {SHIFT_MASK, CONTROL_MASK, MOD1_MASK, MOD4_MASK} = m)"

definition upper_case_key :: "gdk_keyval \<Rightarrow> bool" where
  "upper_case_key k = (case k of KEY_char c \<Rightarrow> c \<in> set ascii_uppercase | _ \<Rightarrow> False)"

definition listed_combination :: "gdk_event \<Rightarrow> bool" where
  "listed_combination e =
     (if upper_case_key (keyval e)
      then only_held e {CONTROL_MASK, SHIFT_MASK}
      else only_held e {} \<or> only_held e {CONTROL_MASK} \<or> only_held e {MOD1_MASK})"

text \<open>A sample of what the outside world may answer, with no bookmarks file.\<close>

definition sample_world :: world where
  "sample_world =
     \<lparr>debug = None,
      environment = Map.empty,
      expand_user = (\<lambda>p. ''/home/user'' @ drop 1 p),
      tmux_buffer = ''tmux text'',
      clipboard = Some ''https://example.org/'',
      dmenu_stdout = ''example.org '',
      read_file = (\<lambda>p. Inl FileNotFoundError),
      current_uri = ''about:blank'',
      page_title = ''a/b'',
      random_source = (\<lambda>i. i)\<rparr>"


text \<open>
  The keybindings of the help text (the same text in both scripts), each as the GDK event
  of pressing exactly the keys listed, with the action the help text gives it.
\<close>

definition press :: "gdk_keyval \<Rightarrow> gdk_modifier set \<Rightarrow> gdk_event" where
  "press k m = \<lparr>keyval = k, state = m\<rparr>"

definition keybindings :: "(gdk_event \<times> action) list" where
  "keybindings =
    [(press KEY_F1 {}, Help),
     (press KEY_q {CONTROL_MASK}, Quit),
     (press KEY_F5 {}, Reload),
     (press KEY_r {CONTROL_MASK}, Reload),
     (press KEY_F12 {}, Inspector),
     (press KEY_p {CONTROL_MASK}, Print_dialog),
     (press KEY_P {CONTROL_MASK, SHIFT_MASK}, Save_pdf),
     (press KEY_s {CONTROL_MASK}, Save_as_html),
     (press KEY_S {CONTROL_MASK, SHIFT_MASK}, Screenshot),
     (press KEY_l {CONTROL_MASK}, Change_url),
     (press KEY_b {CONTROL_MASK}, Bookmarks),
     (press KEY_g {CONTROL_MASK}, Load_tmux),
     (press KEY_G {CONTROL_MASK, SHIFT_MASK}, Load_clipboard),
     (press KEY_Left {MOD1_MASK}, Back),
     (press KEY_h {MOD1_MASK}, Back),
     (press KEY_comma {MOD1_MASK}, Back),
     (press KEY_Right {MOD1_MASK}, Forward),
     (press KEY_l {MOD1_MASK}, Forward),
     (press KEY_period {MOD1_MASK}, Forward),
     (press KEY_j {MOD1_MASK}, Scroll_down),
     (press KEY_k {MOD1_MASK}, Scroll_up),
     (press KEY_u {MOD1_MASK}, Page_down),
     (press KEY_i {MOD1_MASK}, Page_up),
     (press KEY_C {CONTROL_MASK, SHIFT_MASK}, Copy_page_text),
     (press KEY_U {CONTROL_MASK, SHIFT_MASK}, Copy_url),
     (press KEY_plus {CONTROL_MASK}, Zoom_in),
     (press KEY_minus {CONTROL_MASK}, Zoom_out),
     (press KEY_0 {CONTROL_MASK}, Zoom_reset),
     (press KEY_f {CONTROL_MASK}, Find),
     (press KEY_n {CONTROL_MASK}, Find_next),
     (press KEY_N {CONTROL_MASK, SHIFT_MASK}, Find_previous)]"

definition same_action :: "gdk_event \<times> action \<Rightarrow> bool" where
  "same_action b =
     (gtk_dispatch (fst b) = Some (snd b) \<and> qt_dispatch (qt_event_of (fst b)) = Some (snd b))"


section \<open>Basic facts\<close>

lemma loaded_append: "loaded (xs @ ys) = loaded xs @ loaded ys"
  by (induction xs rule: loaded.induct) simp_all

lemma printed_append: "printed (xs @ ys) = printed xs @ printed ys"
  by (induction xs rule: printed.induct) simp_all


lemma debug_print_silent:
  "loaded (debug_print wld) = []" "printed (debug_print wld) = []"
  "dmenu_calls (debug_print wld) = 0"
  by (simp_all add: debug_print_def)

lemma is_valid_url_shaped: "is_valid_url (Some t) = url_shaped t"
  by (auto simp: is_valid_url_def url_shaped_def startswith_any_def startswith_def eval_nat_numeral)

lemma is_valid_url_None: "\<not> is_valid_url None"
  by (simp add: is_valid_url_def)

lemma held_empty: "held e {} = False"
  by (simp add: held_def)

lemma held_insert: "held e (insert m s) = (m \<in> state e \<or> held e s)"
  by (auto simp: held_def)

lemma effects_prepend: "fst (snd (prepend es r)) = es @ fst (snd r)"
  by (simp add: prepend_def)

lemma outcome_prepend: "snd (snd (prepend es r)) = snd (snd r)"
  by (simp add: prepend_def)

lemma find_text_prepend: "fst (prepend es r) = fst r"
  by (simp add: prepend_def)

subsection \<open>Which events reach which branch\<close>

lemma gtk_ctrl_g:
  "keyval e = KEY_g \<Longrightarrow> CONTROL_MASK \<in> state e \<Longrightarrow> SHIFT_MASK \<notin> state e \<Longrightarrow>
   gtk_dispatch e = Some Load_tmux"
  by (simp add: gtk_dispatch_def held_empty held_insert)

lemma gtk_ctrl_shift_g:
  "keyval e = KEY_G \<Longrightarrow> CONTROL_MASK \<in> state e \<Longrightarrow> SHIFT_MASK \<in> state e \<Longrightarrow>
   gtk_dispatch e = Some Load_clipboard"
  by (simp add: gtk_dispatch_def held_empty held_insert)

lemma gtk_ctrl_l:
  "keyval e = KEY_l \<Longrightarrow> CONTROL_MASK \<in> state e \<Longrightarrow> SHIFT_MASK \<notin> state e \<Longrightarrow>
   gtk_dispatch e = Some Change_url"
  by (simp add: gtk_dispatch_def held_empty held_insert)

lemma gtk_ctrl_b:
  "keyval e = KEY_b \<Longrightarrow> CONTROL_MASK \<in> state e \<Longrightarrow> gtk_dispatch e = Some Bookmarks"
  by (simp add: gtk_dispatch_def held_empty held_insert)

lemma gtk_find_iff:
  "gtk_dispatch e = Some Find \<longleftrightarrow> keyval e = KEY_f \<and> CONTROL_MASK \<in> state e"
proof
  assume "gtk_dispatch e = Some Find"
  then show "keyval e = KEY_f \<and> CONTROL_MASK \<in> state e"
    by (simp add: gtk_dispatch_def held_empty held_insert split: if_splits)
next
  assume "keyval e = KEY_f \<and> CONTROL_MASK \<in> state e"
  then show "gtk_dispatch e = Some Find"
    by (simp add: gtk_dispatch_def held_empty held_insert)
qed

lemma qt_ctrl_g:
  "key q = Key_G \<Longrightarrow> modifiers q = {ControlModifier} \<Longrightarrow> qt_dispatch q = Some Load_tmux"
  by (simp add: qt_dispatch_def)

lemma qt_ctrl_shift_g:
  assumes "key q = Key_G" "modifiers q = {ControlModifier, ShiftModifier}"
  shows "qt_dispatch q = Some Load_clipboard"
proof -
  have "modifiers q = {ShiftModifier, ControlModifier}"
    using assms(2) by auto
  with assms(1) show ?thesis
    by (simp add: qt_dispatch_def)
qed

lemma qt_ctrl_l:
  "key q = Key_L \<Longrightarrow> modifiers q = {ControlModifier} \<Longrightarrow> qt_dispatch q = Some Change_url"
  by (simp add: qt_dispatch_def)

lemma qt_ctrl_b:
  "key q = Key_B \<Longrightarrow> modifiers q = {ControlModifier} \<Longrightarrow> qt_dispatch q = Some Bookmarks"
  by (simp add: qt_dispatch_def)

lemma qt_find_iff:
  "qt_dispatch q = Some Find \<longleftrightarrow> key q = Key_F \<and> modifiers q = {ControlModifier}"
proof
  assume "qt_dispatch q = Some Find"
  then show "key q = Key_F \<and> modifiers q = {ControlModifier}"
    by (simp add: qt_dispatch_def split: if_splits)
next
  assume "key q = Key_F \<and> modifiers q = {ControlModifier}"
  then show "qt_dispatch q = Some Find"
    by (simp add: qt_dispatch_def)
qed

lemma qt_ctrl_n:
  "key q = Key_N \<Longrightarrow> modifiers q = {ControlModifier} \<Longrightarrow> qt_dispatch q = Some Find_next"
  by (simp add: qt_dispatch_def)

lemma qt_ctrl_shift_n:
  assumes "key q = Key_N" "modifiers q = {ControlModifier, ShiftModifier}"
  shows "qt_dispatch q = Some Find_previous"
proof -
  have "modifiers q = {ShiftModifier, ControlModifier}"
    using assms(2) by auto
  with assms(1) show ?thesis
    by (simp add: qt_dispatch_def)
qed

subsection \<open>What the handlers return\<close>

lemma gtk_branch_outcome:
  "a \<noteq> Bookmarks \<Longrightarrow> snd (snd (gtk_branch wld ft a)) = Return_True"
  by (cases a) simp_all

lemma qt_branch_outcome:
  "a \<noteq> Bookmarks \<Longrightarrow> snd (snd (qt_branch wld ft a)) = Return_True"
  by (cases a) simp_all

lemma gtk_on_key_unmatched:
  "gtk_dispatch e = None \<Longrightarrow> gtk_on_key wld ft e = (ft, debug_print wld, Return_False)"
  by (simp add: gtk_on_key_def prepend_def)

lemma qt_on_key_unmatched:
  "qt_dispatch q = None \<Longrightarrow> qt_on_key wld ft q = (ft, debug_print wld, Return_False)"
  by (simp add: qt_on_key_def prepend_def)

lemma gtk_on_key_matched:
  "gtk_dispatch e = Some a \<Longrightarrow> a \<noteq> Bookmarks \<Longrightarrow>
   snd (snd (gtk_on_key wld ft e)) = Return_True"
  by (simp add: gtk_on_key_def outcome_prepend gtk_branch_outcome)

lemma qt_on_key_matched:
  "qt_dispatch q = Some a \<Longrightarrow> a \<noteq> Bookmarks \<Longrightarrow>
   snd (snd (qt_on_key wld ft q)) = Return_True"
  by (simp add: qt_on_key_def outcome_prepend qt_branch_outcome)

lemma gtk_branch_find_text:
  "fst (gtk_branch wld ft a) =
     (if a = Find \<and> strip (dmenu_stdout wld) \<noteq> [] then strip (dmenu_stdout wld) else ft)"
  by (cases a) (simp_all add: gtk_find_def Let_def)

lemma qt_branch_find_text:
  "fst (qt_branch wld ft a) =
     (if a = Find \<and> strip (dmenu_stdout wld) \<noteq> [] then strip (dmenu_stdout wld) else ft)"
  by (cases a) (simp_all add: qt_find_def Let_def)

lemma gtk_branch_ignores_find_text:
  "a \<noteq> Find \<Longrightarrow>
   fst (snd (gtk_branch wld ft a)) = fst (snd (gtk_branch wld ft' a)) \<and>
   snd (snd (gtk_branch wld ft a)) = snd (snd (gtk_branch wld ft' a))"
  by (cases a) simp_all

subsection \<open>The loading branches\<close>

lemma loaded_load_from_tmux:
  "loaded (load_from_tmux wld) =
     (if url_shaped (strip (tmux_buffer wld)) then [strip (tmux_buffer wld)] else [])"
  by (simp add: load_from_tmux_def Let_def is_valid_url_shaped)

lemma printed_load_from_tmux: "printed (load_from_tmux wld) \<noteq> []"
  by (simp add: load_from_tmux_def Let_def)

lemma loaded_load_from_clipboard:
  "loaded (load_from_clipboard t) =
     (case t of None \<Rightarrow> [] | Some u \<Rightarrow> if url_shaped u then [u] else [])"
  by (cases t) (simp_all add: load_from_clipboard_def is_valid_url_shaped is_valid_url_None)

lemma printed_load_from_clipboard: "printed (load_from_clipboard t) \<noteq> []"
  by (simp add: load_from_clipboard_def)

lemma loaded_change_url:
  "loaded (change_url wld) =
     (if strip (dmenu_stdout wld) = [] then [] else [strip (dmenu_stdout wld)])"
  by (simp add: change_url_def Let_def)

lemma not_url_shaped_empty: "\<not> url_shaped []"
  by (simp add: url_shaped_def)

subsection \<open>Paths\<close>

lemma isalnum_slash: "\<not> isalnum CHR ''/''"
  by (simp add: isalnum_def)

lemma safe_char_not_slash: "safe_char c \<noteq> CHR ''/''" "CHR ''/'' \<noteq> safe_char c"
  using isalnum_slash by (auto simp: safe_char_def)

lemma choices_length: "length (choices rnd pop k) = k"
  by (simp add: choices_def)

lemma choices_set: "pop \<noteq> [] \<Longrightarrow> set (choices rnd pop k) \<subseteq> set pop"
  by (auto simp: choices_def)

lemma after_last_slash_append:
  assumes "CHR ''/'' \<notin> set n"
  shows "after_last_slash (d @ CHR ''/'' # n) = n"
proof -
  have "takeWhile (\<lambda>c. c \<noteq> CHR ''/'') (rev n @ CHR ''/'' # rev d) =
        rev n @ takeWhile (\<lambda>c. c \<noteq> CHR ''/'') (CHR ''/'' # rev d)"
    using assms by (intro takeWhile_append2) auto
  then show ?thesis by (simp add: after_last_slash_def)
qed

lemma before_last_slash_append:
  assumes "CHR ''/'' \<notin> set n"
  shows "before_last_slash (d @ CHR ''/'' # n) = d"
proof -
  have "dropWhile (\<lambda>c. c \<noteq> CHR ''/'') (rev n @ CHR ''/'' # rev d) =
        dropWhile (\<lambda>c. c \<noteq> CHR ''/'') (CHR ''/'' # rev d)"
    using assms by (intro dropWhile_append2) auto
  then show ?thesis by (simp add: before_last_slash_def)
qed

subsection \<open>The poll routine\<close>

lemma poll_step_loaded:
  "has_loaded st \<Longrightarrow> fst (poll_step u st ev) = [] \<and> has_loaded (snd (poll_step u st ev))"
  by (cases ev) (simp_all add: showEvent_def try_load_url_def)

lemma poll_run_loaded:
  "has_loaded st \<Longrightarrow> fst (poll_run u st evs) = [] \<and> has_loaded (snd (poll_run u st evs))"
proof (induction evs arbitrary: st)
  case Nil
  then show ?case by simp
next
  case (Cons ev evs)
  from Cons.prems have step: "fst (poll_step u st ev) = []" "has_loaded (snd (poll_step u st ev))"
    using poll_step_loaded by blast+
  from Cons.IH [OF step(2)] step(1) show ?case
    by (simp add: case_prod_beta)
qed


subsection \<open>The effects of a key press, by branch\<close>

lemma gtk_on_key_effects:
  "gtk_dispatch e = Some a \<Longrightarrow>
   fst (snd (gtk_on_key wld ft e)) = debug_print wld @ fst (snd (gtk_branch wld ft a))"
  by (simp add: gtk_on_key_def effects_prepend)

lemma qt_on_key_effects:
  "qt_dispatch q = Some a \<Longrightarrow>
   fst (snd (qt_on_key wld ft q)) = debug_print wld @ fst (snd (qt_branch wld ft a))"
  by (simp add: qt_on_key_def effects_prepend)

lemma gtk_on_key_find_text:
  "fst (gtk_on_key wld ft e) =
     (if gtk_dispatch e = Some Find \<and> strip (dmenu_stdout wld) \<noteq> []
      then strip (dmenu_stdout wld) else ft)"
  by (cases "gtk_dispatch e")
     (simp_all add: gtk_on_key_def find_text_prepend gtk_branch_find_text)

lemma qt_on_key_find_text:
  "fst (qt_on_key wld ft q) =
     (if qt_dispatch q = Some Find \<and> strip (dmenu_stdout wld) \<noteq> []
      then strip (dmenu_stdout wld) else ft)"
  by (cases "qt_dispatch q")
     (simp_all add: qt_on_key_def find_text_prepend qt_branch_find_text)

lemma gtk_on_key_ignores_find_text:
  assumes "gtk_dispatch e \<noteq> Some Find"
  shows "snd (gtk_on_key wld ft e) = snd (gtk_on_key wld ft' e)"
proof (cases "gtk_dispatch e")
  case None
  then show ?thesis by (simp add: gtk_on_key_def prepend_def)
next
  case (Some a)
  with assms have "a \<noteq> Find" by simp
  from gtk_branch_ignores_find_text [OF this, of wld ft ft'] Some show ?thesis
    by (simp add: gtk_on_key_def prepend_def)
qed


lemma try_load_url_effects:
  "fst (try_load_url b st) =
     (if truthy (pending_url st) \<and> \<not> has_loaded st then [Load_uri (the (pending_url st))] else [])"
  by (simp add: try_load_url_def)

lemma poll_step_timer_stopped:
  "\<not> timer_active st \<Longrightarrow> \<not> timer_active (snd (poll_step u st ev))"
  by (cases ev) (simp_all add: showEvent_def)

lemma poll_run_timer_stopped:
  "\<not> timer_active st \<Longrightarrow> \<not> timer_active (snd (poll_run u st evs))"
proof (induction evs arbitrary: st)
  case Nil
  then show ?case by simp
next
  case (Cons ev evs)
  from Cons.IH [OF poll_step_timer_stopped [OF Cons.prems]] show ?case
    by (simp add: case_prod_beta)
qed

subsection \<open>The same key press in both toolkits\<close>

lemma qt_modifiers_ctrl:
  "qt_modifiers_of s = {ControlModifier} \<longleftrightarrow>
   CONTROL_MASK \<in> s \<and> SHIFT_MASK \<notin> s \<and> MOD1_MASK \<notin> s \<and> MOD4_MASK \<notin> s"
  by (auto simp: qt_modifiers_of_def split: if_splits)

lemma qt_modifiers_alt:
  "qt_modifiers_of s = {AltModifier} \<longleftrightarrow>
   MOD1_MASK \<in> s \<and> SHIFT_MASK \<notin> s \<and> CONTROL_MASK \<notin> s \<and> MOD4_MASK \<notin> s"
  by (auto simp: qt_modifiers_of_def split: if_splits)

lemma qt_modifiers_ctrl_shift:
  "qt_modifiers_of s = {ShiftModifier, ControlModifier} \<longleftrightarrow>
   CONTROL_MASK \<in> s \<and> SHIFT_MASK \<in> s \<and> MOD1_MASK \<notin> s \<and> MOD4_MASK \<notin> s"
  by (auto simp: qt_modifiers_of_def split: if_splits)

lemmas modifier_tests =
  held_empty held_insert qt_modifiers_ctrl qt_modifiers_alt qt_modifiers_ctrl_shift

lemmas dispatch_defs = qt_dispatch_def gtk_dispatch_def qt_event_of_def



lemma agree_upper:
  assumes "keyval e = KEY_char c" "c \<in> set ascii_uppercase"
    "CONTROL_MASK \<in> state e" "SHIFT_MASK \<in> state e"
    "MOD1_MASK \<notin> state e" "MOD4_MASK \<notin> state e"
  shows "qt_dispatch (qt_event_of e) = gtk_dispatch e"
  using assms(2) unfolding ascii_uppercase_def set_simps insert_iff empty_iff
  by (elim disjE FalseE; simp add: assms(1,3-6) dispatch_defs modifier_tests to_upper_def)


lemma agree_lower:
  assumes "keyval e = KEY_char c" "c \<in> set ascii_lowercase" "SHIFT_MASK \<notin> state e"
    "MOD4_MASK \<notin> state e" "\<not> (CONTROL_MASK \<in> state e \<and> MOD1_MASK \<in> state e)"
  shows "qt_dispatch (qt_event_of e) = gtk_dispatch e"
  using assms(2) unfolding ascii_lowercase_def set_simps insert_iff empty_iff
  by (elim disjE FalseE; use assms(5) in \<open>auto simp add: assms(1,3,4) dispatch_defs modifier_tests to_upper_def\<close>)


lemma to_upper_other: "c \<notin> set ascii_lowercase \<Longrightarrow> to_upper c = c"
  by (simp add: to_upper_def ascii_lowercase_def)

lemma agree_no_letter:
  assumes "keyval e = KEY_char c" "c \<notin> set ascii_lowercase" "c \<notin> set ascii_uppercase"
    "SHIFT_MASK \<notin> state e"
    "MOD4_MASK \<notin> state e" "\<not> (CONTROL_MASK \<in> state e \<and> MOD1_MASK \<in> state e)"
  shows "qt_dispatch (qt_event_of e) = gtk_dispatch e"
proof -
  have up: "to_upper c = c"
    using assms(2) by (rule to_upper_other)
  have nl: "c \<noteq> CHR ''q''" "c \<noteq> CHR ''r''" "c \<noteq> CHR ''p''" "c \<noteq> CHR ''s''" "c \<noteq> CHR ''g''"
    "c \<noteq> CHR ''l''" "c \<noteq> CHR ''b''" "c \<noteq> CHR ''h''" "c \<noteq> CHR ''j''" "c \<noteq> CHR ''k''"
    "c \<noteq> CHR ''u''" "c \<noteq> CHR ''i''" "c \<noteq> CHR ''f''" "c \<noteq> CHR ''n''"
    using assms(2) by (simp_all add: ascii_lowercase_def)
  have nu: "c \<noteq> CHR ''Q''" "c \<noteq> CHR ''R''" "c \<noteq> CHR ''P''" "c \<noteq> CHR ''S''" "c \<noteq> CHR ''G''"
    "c \<noteq> CHR ''L''" "c \<noteq> CHR ''B''" "c \<noteq> CHR ''H''" "c \<noteq> CHR ''J''" "c \<noteq> CHR ''K''"
    "c \<noteq> CHR ''U''" "c \<noteq> CHR ''I''" "c \<noteq> CHR ''F''" "c \<noteq> CHR ''N''" "c \<noteq> CHR ''C''"
    using assms(3) by (simp_all add: ascii_uppercase_def)
  show ?thesis
    using assms(6)
    by (auto simp add: assms(1,4,5) nl nu up dispatch_defs modifier_tests)
qed

lemma listed_upper:
  "listed_combination e \<Longrightarrow> upper_case_key (keyval e) \<Longrightarrow>
   CONTROL_MASK \<in> state e \<and> SHIFT_MASK \<in> state e \<and>
   MOD1_MASK \<notin> state e \<and> MOD4_MASK \<notin> state e"
  by (auto simp: listed_combination_def only_held_def)

lemma listed_plain:
  "listed_combination e \<Longrightarrow> \<not> upper_case_key (keyval e) \<Longrightarrow>
   SHIFT_MASK \<notin> state e \<and> MOD4_MASK \<notin> state e \<and>
   \<not> (CONTROL_MASK \<in> state e \<and> MOD1_MASK \<in> state e)"
  by (auto simp: listed_combination_def only_held_def)

lemma agree_other_keys:
  assumes "keyval e = KEY_F1 \<or> keyval e = KEY_F5 \<or> keyval e = KEY_F12 \<or>
    keyval e = KEY_Left \<or> keyval e = KEY_Right \<or> keyval e = KEY_other n"
    and "SHIFT_MASK \<notin> state e" "MOD4_MASK \<notin> state e"
    and "\<not> (CONTROL_MASK \<in> state e \<and> MOD1_MASK \<in> state e)"
  shows "qt_dispatch (qt_event_of e) = gtk_dispatch e"
  using assms(1)
  by (elim disjE; use assms(4) in \<open>auto simp add: assms(2,3) dispatch_defs modifier_tests\<close>)


section \<open>Properties of the key handlers\<close>

text \<open>
  C4. In both shells, a Ctrl+G key press hands the stripped tmux buffer to the engine's
  load operation exactly when it is URL-shaped (not empty and beginning with
  \<open>http://\<close>, \<open>https://\<close>, \<open>ftp://\<close> or \<open>file://\<close>), and a Ctrl+Shift+G key press does the
  same with the clipboard text. Nothing else is loaded, and a line is printed either way;
  when the text is not URL-shaped the line printed is the rejection message and nothing
  is loaded.
\<close>

theorem buffer_and_clipboard_load_only_urls:
  "(keyval e = KEY_g \<and> CONTROL_MASK \<in> state e \<and> SHIFT_MASK \<notin> state e \<longrightarrow>
      loaded (fst (snd (gtk_on_key wld ft e))) =
        (if url_shaped (strip (tmux_buffer wld)) then [strip (tmux_buffer wld)] else []) \<and>
      printed (fst (snd (gtk_on_key wld ft e))) \<noteq> []) \<and>
   (keyval e = KEY_G \<and> CONTROL_MASK \<in> state e \<and> SHIFT_MASK \<in> state e \<longrightarrow>
      loaded (fst (snd (gtk_on_key wld ft e))) =
        (case clipboard wld of None \<Rightarrow> [] | Some t \<Rightarrow> if url_shaped t then [t] else []) \<and>
      printed (fst (snd (gtk_on_key wld ft e))) \<noteq> []) \<and>
   (key q = Key_G \<and> modifiers q = {ControlModifier} \<longrightarrow>
      loaded (fst (snd (qt_on_key wld ft q))) =
        (if url_shaped (strip (tmux_buffer wld)) then [strip (tmux_buffer wld)] else []) \<and>
      printed (fst (snd (qt_on_key wld ft q))) \<noteq> []) \<and>
   (key q = Key_G \<and> modifiers q = {ControlModifier, ShiftModifier} \<longrightarrow>
      loaded (fst (snd (qt_on_key wld ft q))) =
        (if url_shaped (get_clipboard_text wld) then [get_clipboard_text wld] else []) \<and>
      printed (fst (snd (qt_on_key wld ft q))) \<noteq> [])"
proof -
  have g1: "loaded (fst (snd (gtk_on_key wld ft e))) =
        (if url_shaped (strip (tmux_buffer wld)) then [strip (tmux_buffer wld)] else []) \<and>
      printed (fst (snd (gtk_on_key wld ft e))) \<noteq> []"
    if "keyval e = KEY_g" "CONTROL_MASK \<in> state e" "SHIFT_MASK \<notin> state e"
    using gtk_on_key_effects [OF gtk_ctrl_g [OF that]]
    by (simp add: loaded_append printed_append debug_print_silent loaded_load_from_tmux
        printed_load_from_tmux)
  have g2: "loaded (fst (snd (gtk_on_key wld ft e))) =
        (case clipboard wld of None \<Rightarrow> [] | Some t \<Rightarrow> if url_shaped t then [t] else []) \<and>
      printed (fst (snd (gtk_on_key wld ft e))) \<noteq> []"
    if "keyval e = KEY_G" "CONTROL_MASK \<in> state e" "SHIFT_MASK \<in> state e"
    using gtk_on_key_effects [OF gtk_ctrl_shift_g [OF that]]
    by (simp add: loaded_append printed_append debug_print_silent loaded_load_from_clipboard
        printed_load_from_clipboard)
  have q1: "loaded (fst (snd (qt_on_key wld ft q))) =
        (if url_shaped (strip (tmux_buffer wld)) then [strip (tmux_buffer wld)] else []) \<and>
      printed (fst (snd (qt_on_key wld ft q))) \<noteq> []"
    if "key q = Key_G" "modifiers q = {ControlModifier}"
    using qt_on_key_effects [OF qt_ctrl_g [OF that]]
    by (simp add: loaded_append printed_append debug_print_silent loaded_load_from_tmux
        printed_load_from_tmux)
  have q2: "loaded (fst (snd (qt_on_key wld ft q))) =
        (if url_shaped (get_clipboard_text wld) then [get_clipboard_text wld] else []) \<and>
      printed (fst (snd (qt_on_key wld ft q))) \<noteq> []"
    if "key q = Key_G" "modifiers q = {ControlModifier, ShiftModifier}"
    using qt_on_key_effects [OF qt_ctrl_shift_g [OF that]]
    by (simp add: loaded_append printed_append debug_print_silent loaded_load_from_clipboard
        printed_load_from_clipboard)
  from g1 g2 q1 q2 show ?thesis by blast
qed

theorem buffer_and_clipboard_load_only_urls_witness:
  "loaded (fst (snd (gtk_on_key sample_world [] \<lparr>keyval = KEY_g, state = {CONTROL_MASK}\<rparr>))) = [] \<and>
   loaded (fst (snd (gtk_on_key sample_world []
      \<lparr>keyval = KEY_G, state = {CONTROL_MASK, SHIFT_MASK}\<rparr>))) = [''https://example.org/''] \<and>
   loaded (fst (snd (qt_on_key sample_world [] \<lparr>key = Key_G, modifiers = {ControlModifier}\<rparr>))) = [] \<and>
   loaded (fst (snd (qt_on_key sample_world []
      \<lparr>key = Key_G, modifiers = {ControlModifier, ShiftModifier}\<rparr>))) = [''https://example.org/'']"
  using buffer_and_clipboard_load_only_urls
    [of "\<lparr>keyval = KEY_g, state = {CONTROL_MASK}\<rparr>" sample_world "[]"
        "\<lparr>key = Key_G, modifiers = {ControlModifier}\<rparr>"]
    buffer_and_clipboard_load_only_urls
    [of "\<lparr>keyval = KEY_G, state = {CONTROL_MASK, SHIFT_MASK}\<rparr>" sample_world "[]"
        "\<lparr>key = Key_G, modifiers = {ControlModifier, ShiftModifier}\<rparr>"]
  by (simp add: sample_world_def url_shaped_def strip_def isspace_def get_clipboard_text_def)

text \<open>
  C9. In both shells, a Ctrl+L key press hands whatever the dmenu prompt returned, stripped
  of surrounding whitespace, to the engine's load operation whenever it is not empty:
  there is no test of its shape. An empty answer loads nothing.
\<close>

theorem dmenu_url_is_not_validated:
  "(keyval e = KEY_l \<and> CONTROL_MASK \<in> state e \<and> SHIFT_MASK \<notin> state e \<longrightarrow>
      loaded (fst (snd (gtk_on_key wld ft e))) =
        (if strip (dmenu_stdout wld) = [] then [] else [strip (dmenu_stdout wld)])) \<and>
   (key q = Key_L \<and> modifiers q = {ControlModifier} \<longrightarrow>
      loaded (fst (snd (qt_on_key wld ft q))) =
        (if strip (dmenu_stdout wld) = [] then [] else [strip (dmenu_stdout wld)]))"
proof -
  have g: "loaded (fst (snd (gtk_on_key wld ft e))) =
        (if strip (dmenu_stdout wld) = [] then [] else [strip (dmenu_stdout wld)])"
    if "keyval e = KEY_l" "CONTROL_MASK \<in> state e" "SHIFT_MASK \<notin> state e"
    using gtk_on_key_effects [OF gtk_ctrl_l [OF that]]
    by (simp add: loaded_append debug_print_silent loaded_change_url)
  have q: "loaded (fst (snd (qt_on_key wld ft q))) =
        (if strip (dmenu_stdout wld) = [] then [] else [strip (dmenu_stdout wld)])"
    if "key q = Key_L" "modifiers q = {ControlModifier}"
    using qt_on_key_effects [OF qt_ctrl_l [OF that]]
    by (simp add: loaded_append debug_print_silent loaded_change_url)
  from g q show ?thesis by blast
qed

theorem dmenu_url_is_not_validated_witness:
  "\<not> url_shaped ''example.org'' \<and>
   loaded (fst (snd (gtk_on_key sample_world [] \<lparr>keyval = KEY_l, state = {CONTROL_MASK}\<rparr>))) =
     [''example.org''] \<and>
   loaded (fst (snd (qt_on_key sample_world [] \<lparr>key = Key_L, modifiers = {ControlModifier}\<rparr>))) =
     [''example.org'']"
  using dmenu_url_is_not_validated
    [of "\<lparr>keyval = KEY_l, state = {CONTROL_MASK}\<rparr>" sample_world "[]"
        "\<lparr>key = Key_L, modifiers = {ControlModifier}\<rparr>"]
  by (simp add: sample_world_def url_shaped_def strip_def isspace_def)



text \<open>
  C1, at the input where it fails. With the bookmarks file missing, the Ctrl+B branch is
  the one selected in both shells, and the handler leaves through the bare
  \<^verbatim>\<open>return\<close>: the GTK handler returns \<^verbatim>\<open>None\<close>, not \<^verbatim>\<open>True\<close>, and the Qt event
  filter reports the event as not handled.
\<close>

theorem ctrl_b_without_bookmarks_is_not_reported_handled:
  "gtk_dispatch \<lparr>keyval = KEY_b, state = {CONTROL_MASK}\<rparr> = Some Bookmarks \<and>
   snd (snd (gtk_on_key sample_world [] \<lparr>keyval = KEY_b, state = {CONTROL_MASK}\<rparr>)) = Return_None \<and>
   qt_dispatch \<lparr>key = Key_B, modifiers = {ControlModifier}\<rparr> = Some Bookmarks \<and>
   snd (snd (qt_on_key sample_world [] \<lparr>key = Key_B, modifiers = {ControlModifier}\<rparr>)) = Return_None \<and>
   snd (snd (eventFilter sample_world []
     (KeyPress \<lparr>key = Key_B, modifiers = {ControlModifier}\<rparr>))) = Return_False"
proof -
  have g: "gtk_dispatch \<lparr>keyval = KEY_b, state = {CONTROL_MASK}\<rparr> = Some Bookmarks"
    by (rule gtk_ctrl_b) simp_all
  have q: "qt_dispatch \<lparr>key = Key_B, modifiers = {ControlModifier}\<rparr> = Some Bookmarks"
    by (rule qt_ctrl_b) simp_all
  have b: "snd (open_bookmark sample_world) = Return_None"
    by (simp add: open_bookmark_def sample_world_def)
  have k: "snd (snd (qt_on_key sample_world [] \<lparr>key = Key_B, modifiers = {ControlModifier}\<rparr>)) =
      Return_None"
    by (simp add: q b qt_on_key_def outcome_prepend)
  have f: "snd (snd (eventFilter sample_world []
     (KeyPress \<lparr>key = Key_B, modifiers = {ControlModifier}\<rparr>))) = Return_False"
    unfolding eventFilter.simps Let_def by (simp add: k)
  have gk: "snd (snd (gtk_on_key sample_world [] \<lparr>keyval = KEY_b, state = {CONTROL_MASK}\<rparr>)) =
      Return_None"
    by (simp add: g b gtk_on_key_def outcome_prepend)
  from g gk q k f show ?thesis
    by (simp only: simp_thms)
qed

text \<open>
  C6, as the code has it. The find term starts empty. A key press replaces it exactly when
  it is Ctrl+F and the dmenu prompt returned a text that is not empty after stripping, and
  then by that text; so it is never emptied again. Ctrl+F hands the current term to the
  prompt in both shells. In the Qt shell, Ctrl+N and Ctrl+Shift+N search for the current
  term when it is not empty. In the GTK shell, no key press other than Ctrl+F depends on
  the term: find-next and find-previous go to the engine's find controller.
\<close>

theorem find_term_slot:
  "initial_find_text = [] \<and>
   fst (gtk_on_key wld ft e) =
     (if keyval e = KEY_f \<and> CONTROL_MASK \<in> state e \<and> strip (dmenu_stdout wld) \<noteq> []
      then strip (dmenu_stdout wld) else ft) \<and>
   fst (qt_on_key wld ft q) =
     (if key q = Key_F \<and> modifiers q = {ControlModifier} \<and> strip (dmenu_stdout wld) \<noteq> []
      then strip (dmenu_stdout wld) else ft) \<and>
   (ft \<noteq> [] \<longrightarrow> fst (gtk_on_key wld ft e) \<noteq> [] \<and> fst (qt_on_key wld ft q) \<noteq> []) \<and>
   (keyval e = KEY_f \<and> CONTROL_MASK \<in> state e \<longrightarrow>
      Subprocess_run [''dmenu'', ''-p'', ''Find''] (Some ft) \<in> set (fst (snd (gtk_on_key wld ft e)))) \<and>
   (key q = Key_F \<and> modifiers q = {ControlModifier} \<longrightarrow>
      Subprocess_run [''dmenu'', ''-p'', ''Find''] (Some ft) \<in> set (fst (snd (qt_on_key wld ft q)))) \<and>
   (key q = Key_N \<and> modifiers q = {ControlModifier} \<and> ft \<noteq> [] \<longrightarrow>
      Find_text ft {FindCaseSensitively} \<in> set (fst (snd (qt_on_key wld ft q)))) \<and>
   (key q = Key_N \<and> modifiers q = {ControlModifier, ShiftModifier} \<and> ft \<noteq> [] \<longrightarrow>
      Find_text ft {FindBackward, FindCaseSensitively} \<in> set (fst (snd (qt_on_key wld ft q)))) \<and>
   (\<not> (keyval e = KEY_f \<and> CONTROL_MASK \<in> state e) \<longrightarrow>
      snd (gtk_on_key wld ft e) = snd (gtk_on_key wld ft' e))"
proof -
  have a: "initial_find_text = []"
    by (simp add: initial_find_text_def)
  have b: "fst (gtk_on_key wld ft e) =
     (if keyval e = KEY_f \<and> CONTROL_MASK \<in> state e \<and> strip (dmenu_stdout wld) \<noteq> []
      then strip (dmenu_stdout wld) else ft)"
    by (simp add: gtk_on_key_find_text gtk_find_iff)
  have c: "fst (qt_on_key wld ft q) =
     (if key q = Key_F \<and> modifiers q = {ControlModifier} \<and> strip (dmenu_stdout wld) \<noteq> []
      then strip (dmenu_stdout wld) else ft)"
    by (simp add: qt_on_key_find_text qt_find_iff)
  have d: "ft \<noteq> [] \<longrightarrow> fst (gtk_on_key wld ft e) \<noteq> [] \<and> fst (qt_on_key wld ft q) \<noteq> []"
    by (simp add: gtk_on_key_find_text qt_on_key_find_text)
  have f: "Subprocess_run [''dmenu'', ''-p'', ''Find''] (Some ft) \<in> set (fst (snd (gtk_on_key wld ft e)))"
    if "keyval e = KEY_f \<and> CONTROL_MASK \<in> state e"
    using gtk_on_key_effects [of e Find wld ft] that
    by (simp add: gtk_find_iff gtk_find_def Let_def)
  have g: "Subprocess_run [''dmenu'', ''-p'', ''Find''] (Some ft) \<in> set (fst (snd (qt_on_key wld ft q)))"
    if "key q = Key_F \<and> modifiers q = {ControlModifier}"
    using qt_on_key_effects [of q Find wld ft] that
    by (simp add: qt_find_iff qt_find_def Let_def)
  have h: "Find_text ft {FindCaseSensitively} \<in> set (fst (snd (qt_on_key wld ft q)))"
    if "key q = Key_N" "modifiers q = {ControlModifier}" "ft \<noteq> []"
    using qt_on_key_effects [OF qt_ctrl_n [OF that(1,2)], of wld ft] that(3)
    by simp
  have i: "Find_text ft {FindBackward, FindCaseSensitively} \<in> set (fst (snd (qt_on_key wld ft q)))"
    if "key q = Key_N" "modifiers q = {ControlModifier, ShiftModifier}" "ft \<noteq> []"
    using qt_on_key_effects [OF qt_ctrl_shift_n [OF that(1,2)], of wld ft] that(3)
    by auto
  have j: "snd (gtk_on_key wld ft e) = snd (gtk_on_key wld ft' e)"
    if "\<not> (keyval e = KEY_f \<and> CONTROL_MASK \<in> state e)"
    using that by (intro gtk_on_key_ignores_find_text) (simp add: gtk_find_iff)
  from a b c d f g h i j show ?thesis by blast
qed

theorem find_term_slot_witness:
  "fst (gtk_on_key sample_world ''old'' \<lparr>keyval = KEY_f, state = {CONTROL_MASK}\<rparr>) = ''example.org'' \<and>
   fst (qt_on_key sample_world ''old'' \<lparr>key = Key_F, modifiers = {ControlModifier}\<rparr>) = ''example.org'' \<and>
   Find_text ''old'' {FindCaseSensitively} \<in>
     set (fst (snd (qt_on_key sample_world ''old'' \<lparr>key = Key_N, modifiers = {ControlModifier}\<rparr>))) \<and>
   snd (gtk_on_key sample_world ''old'' \<lparr>keyval = KEY_n, state = {CONTROL_MASK}\<rparr>) =
   snd (gtk_on_key sample_world ''new'' \<lparr>keyval = KEY_n, state = {CONTROL_MASK}\<rparr>)"
  using find_term_slot
    [of sample_world "''old''" "\<lparr>keyval = KEY_f, state = {CONTROL_MASK}\<rparr>"
        "\<lparr>key = Key_F, modifiers = {ControlModifier}\<rparr>" "''new''"]
    find_term_slot
    [of sample_world "''old''" "\<lparr>keyval = KEY_n, state = {CONTROL_MASK}\<rparr>"
        "\<lparr>key = Key_N, modifiers = {ControlModifier}\<rparr>" "''new''"]
  by (simp add: sample_world_def strip_def isspace_def)

text \<open>
  C6, as it is stated, fails in the GTK shell: there the find-next key press does the same
  whatever the find term holds, and does not mention it.
\<close>

theorem gtk_find_next_does_not_read_find_term:
  "snd (gtk_on_key sample_world ''alpha'' \<lparr>keyval = KEY_n, state = {CONTROL_MASK}\<rparr>) =
     ([Find_search_next, Print ''Find next''], Return_True) \<and>
   snd (gtk_on_key sample_world ''beta'' \<lparr>keyval = KEY_n, state = {CONTROL_MASK}\<rparr>) =
     ([Find_search_next, Print ''Find next''], Return_True) \<and>
   snd (gtk_on_key sample_world ''alpha'' \<lparr>keyval = KEY_N, state = {CONTROL_MASK, SHIFT_MASK}\<rparr>) =
     ([Find_search_previous, Print ''Find previous''], Return_True) \<and>
   snd (gtk_on_key sample_world ''beta'' \<lparr>keyval = KEY_N, state = {CONTROL_MASK, SHIFT_MASK}\<rparr>) =
     ([Find_search_previous, Print ''Find previous''], Return_True)"
  by (simp add: gtk_on_key_def gtk_dispatch_def held_empty held_insert prepend_def
      debug_print_def sample_world_def truthy_def)

section \<open>Properties of the save path\<close>

text \<open>
  C10. For every title and extension, \<^verbatim>\<open>get_save_path\<close> returns the download directory,
  a \<open>/\<close>, the sanitized title, two underscores, a suffix, a dot and the extension. The
  sanitized title has the length of the title and, at each position, the title's character
  when that is alphanumeric, \<open>-\<close> or \<open>_\<close>, and \<open>_\<close> otherwise; the suffix is seven
  characters out of the lower-case letters and the digits. The sanitized title holds no
  \<open>/\<close>, so (for an extension without \<open>/\<close>) everything after the download directory is
  one file name: the text before the last \<open>/\<close> of the path is the download directory.
\<close>

theorem get_save_path_stays_in_download_dir:
  "get_save_path ex env rnd title ext =
     download_dir ex env @ ''/'' @ map safe_char title @ ''__'' @
       choices rnd (ascii_lowercase @ digits) 7 @ ''.'' @ ext \<and>
   length (map safe_char title) = length title \<and>
   (\<forall>i < length title.
      map safe_char title ! i =
        (if isalnum (title ! i) \<or> title ! i = CHR ''-'' \<or> title ! i = CHR ''_''
         then title ! i else CHR ''_'')) \<and>
   length (choices rnd (ascii_lowercase @ digits) 7) = 7 \<and>
   set (choices rnd (ascii_lowercase @ digits) 7) \<subseteq> set ''abcdefghijklmnopqrstuvwxyz0123456789'' \<and>
   CHR ''/'' \<notin> set (map safe_char title) \<and>
   (CHR ''/'' \<notin> set ext \<longrightarrow>
      before_last_slash (get_save_path ex env rnd title ext) = download_dir ex env \<and>
      after_last_slash (get_save_path ex env rnd title ext) =
        map safe_char title @ ''__'' @ choices rnd (ascii_lowercase @ digits) 7 @ ''.'' @ ext)"
proof -
  let ?suffix = "choices rnd (ascii_lowercase @ digits) 7"
  let ?name = "map safe_char title @ ''__'' @ ?suffix @ ''.'' @ ext"
  have form: "get_save_path ex env rnd title ext = download_dir ex env @ CHR ''/'' # ?name"
    by (simp add: get_save_path_def Let_def)
  have chars: "\<forall>i < length title.
      map safe_char title ! i =
        (if isalnum (title ! i) \<or> title ! i = CHR ''-'' \<or> title ! i = CHR ''_''
         then title ! i else CHR ''_'')"
    by (simp add: safe_char_def)
  have alphabet: "ascii_lowercase @ digits = ''abcdefghijklmnopqrstuvwxyz0123456789''"
    by (simp add: ascii_lowercase_def digits_def)
  have suffix: "set ?suffix \<subseteq> set ''abcdefghijklmnopqrstuvwxyz0123456789''"
    using choices_set [of "ascii_lowercase @ digits" rnd 7] unfolding alphabet by simp
  have title_ok: "CHR ''/'' \<notin> set (map safe_char title)"
    by (auto simp: safe_char_not_slash)
  have suffix_ok: "CHR ''/'' \<notin> set ?suffix"
    using suffix by auto
  have name_ok: "CHR ''/'' \<notin> set ?name" if "CHR ''/'' \<notin> set ext"
    using that title_ok suffix_ok by simp
  have confined: "before_last_slash (get_save_path ex env rnd title ext) = download_dir ex env \<and>
      after_last_slash (get_save_path ex env rnd title ext) = ?name"
    if "CHR ''/'' \<notin> set ext"
    unfolding form
    using before_last_slash_append [OF name_ok [OF that]]
      after_last_slash_append [OF name_ok [OF that]]
    by blast
  from form chars suffix title_ok confined show ?thesis
    by (simp add: choices_length)
qed

theorem get_save_path_stays_in_download_dir_witness:
  "CHR ''/'' \<notin> set ''pdf'' \<and>
   get_save_path (\<lambda>p. ''/home/user'' @ drop 1 p) Map.empty (\<lambda>i. 5 * i) ''a/b c'' ''pdf'' =
     ''/home/user/Downloads/a_b_c__afkpuz4.pdf'' \<and>
   before_last_slash
     (get_save_path (\<lambda>p. ''/home/user'' @ drop 1 p) Map.empty (\<lambda>i. 5 * i) ''a/b c'' ''pdf'') =
     ''/home/user/Downloads''"
proof -
  have h: "CHR ''/'' \<notin> set ''pdf''"
    by simp
  have e: "get_save_path (\<lambda>p. ''/home/user'' @ drop 1 p) Map.empty (\<lambda>i. 5 * i) ''a/b c'' ''pdf'' =
     ''/home/user/Downloads/a_b_c__afkpuz4.pdf''"
    by (simp add: get_save_path_def download_dir_def getenv_default_def choices_def
        ascii_lowercase_def digits_def upt_rec safe_char_def isalnum_def)
  have d: "download_dir (\<lambda>p. ''/home/user'' @ drop 1 p) Map.empty = ''/home/user/Downloads''"
    by (simp add: download_dir_def getenv_default_def)
  from get_save_path_stays_in_download_dir
    [of "\<lambda>p. ''/home/user'' @ drop 1 p" Map.empty "\<lambda>i. 5 * i" "''a/b c''" "''pdf''"] h
  have "before_last_slash
     (get_save_path (\<lambda>p. ''/home/user'' @ drop 1 p) Map.empty (\<lambda>i. 5 * i) ''a/b c'' ''pdf'') =
     download_dir (\<lambda>p. ''/home/user'' @ drop 1 p) Map.empty"
    by blast
  with h e d show ?thesis by simp
qed

section \<open>Properties of the startup configuration\<close>


text \<open>
  A number that \<^verbatim>\<open>int()\<close> accepts may still be refused by the toolkit function it is
  handed to. A memory limit outside the range of \<^verbatim>\<open>guint\<close> ends the GTK startup with
  an \<^verbatim>\<open>OverflowError\<close>, which \<^verbatim>\<open>except ValueError\<close> does not catch, and a width or
  height outside the range of a C \<^verbatim>\<open>int\<close> ends the startup of either script.
\<close>

lemma out_of_range_numbers_abort_startup:
  "gtk_startup (\<lambda>p. p) [''DBROWSER_MEMORY_LIMIT'' \<mapsto> ''-1''] = Inl OverflowError \<and>
   gtk_startup (\<lambda>p. p) [''DBROWSER_MEMORY_LIMIT'' \<mapsto> ''4294967296''] = Inl OverflowError \<and>
   gtk_startup (\<lambda>p. p) [''DBROWSER_SIZE'' \<mapsto> ''4294967296x600''] = Inl OverflowError \<and>
   qt_startup (\<lambda>p. p) [''DBROWSER_SIZE'' \<mapsto> ''4294967296x600''] = Inl OverflowError"
  by (simp add: gtk_startup_def qt_startup_def gtk_context_def gtk_memory_pressure_def
      gtk_window_size_def qt_window_size_def set_default_size_def resize_def fits_int32_def
      fits_uint32_def getenv_def getenv_default_def truthy_def parse_size_def py_int_def
      int_strip_def int_whitespace_def parse_number_def int_max_str_digits_def isdigit_def
      digit_val_def)

text \<open>
  What \<^verbatim>\<open>int()\<close> accepts and rejects around the separator 0x1C, which
  \<^verbatim>\<open>str.strip\<close> removes and \<^verbatim>\<open>int()\<close> does not skip, and around the non-ASCII
  blank 0xA0, which both skip.
\<close>

lemma py_int_whitespace:
  "py_int (CHR 0x1C # ''256'') = None \<and>
   py_int (''256'' @ [CHR 0x1F]) = None \<and>
   py_int (CHR 0xA0 # '' 256'' @ [CHR 0x09]) = Some 256 \<and>
   py_int ''-1_000'' = Some (- 1000) \<and>
   py_int ''1__0'' = None \<and>
   strip (CHR 0x1C # ''256'') = ''256''"
  by (simp add: py_int_def int_strip_def int_whitespace_def parse_number_def
      int_max_str_digits_def isdigit_def digit_val_def strip_def isspace_def)

text \<open>A string of digits is accepted up to 4300 digits and rejected beyond.\<close>

lemma py_int_digit_limit:
  "py_int (replicate n CHR ''1'') = None \<longleftrightarrow> n = 0 \<or> 4300 < n"
proof (cases n)
  case 0
  then show ?thesis by (simp add: py_int_def int_strip_def)
next
  case (Suc m)
  have dw: "dropWhile int_whitespace (replicate k CHR ''1'') = replicate k CHR ''1''" for k
    by (cases k) (simp_all add: int_whitespace_def)
  have s0: "int_strip (replicate k CHR ''1'') = replicate k CHR ''1''" for k
    by (simp add: int_strip_def dw int_whitespace_def)
  have s: "int_strip (replicate n CHR ''1'') = CHR ''1'' # replicate m CHR ''1''"
    using s0 [of n] Suc by simp
  have f: "length (filter isdigit (replicate k CHR ''1'')) = k" for k
    by (induction k) (simp_all add: isdigit_def)
  have p: "parse_digits (replicate (Suc k) CHR ''1'') acc \<noteq> None" for k acc
  proof (induction k arbitrary: acc)
    case 0
    show ?case by (simp add: isdigit_def)
  next
    case (Suc k)
    from Suc [of "10 * acc + digit_val CHR ''1''"] show ?case by (simp add: isdigit_def)
  qed
  have l: "length (filter isdigit (CHR ''1'' # replicate m CHR ''1'')) = n"
    using f [of n] Suc by simp
  have q: "parse_digits (CHR ''1'' # replicate m CHR ''1'') 0 \<noteq> None"
    using p [of m 0] by simp
  from l q Suc show ?thesis
    unfolding py_int_def s by (simp add: parse_number_def int_max_str_digits_def)
qed



text \<open>
  C3, at the input where it fails. With \<^verbatim>\<open>DBROWSER_MEMORY_LIMIT=256\<close> the GTK script
  sets a limit of 256 with the thresholds 0.95, 0.85 and 0.7, while the Qt script starts
  exactly as it does without the variable: it reads the variable and configures nothing
  from it.
\<close>

theorem qt_ignores_memory_limit:
  "gtk_startup (\<lambda>p. p) [''DBROWSER_MEMORY_LIMIT'' \<mapsto> ''256''] =
     Inr \<lparr>ctx = Data_manager_context (Some \<lparr>memory_limit = 256, kill_threshold = 0.95,
             strict_threshold = 0.85, conservative_threshold = 0.7\<rparr>),
          disk_cache_directory = None, cache_model_document_viewer = False,
          shared_secondary_process = False, default_size = (800, 600)\<rparr> \<and>
   qt_startup (\<lambda>p. p) [''DBROWSER_MEMORY_LIMIT'' \<mapsto> ''256''] = qt_startup (\<lambda>p. p) Map.empty \<and>
   qt_startup (\<lambda>p. p) Map.empty =
     Inr \<lparr>cache_path = None, http_cache_disabled = False, window_size = (800, 600)\<rparr>"
  by (simp add: gtk_startup_def qt_startup_def gtk_context_def gtk_memory_pressure_def
      gtk_window_size_def qt_window_size_def set_default_size_def resize_def fits_int32_def
      fits_uint32_def getenv_def getenv_default_def truthy_def parse_size_def py_int_def
      int_strip_def int_whitespace_def parse_number_def int_max_str_digits_def isdigit_def
      digit_val_def)

section \<open>Properties of the pending initial URL\<close>

text \<open>
  C7. Showing the view stores the start URL in the pending slot. The poll routine calls
  the engine's load only while the slot is not empty and no load has been observed, and
  then with the slot's URL. When the engine then reports that it is loading, the slot is
  cleared, the load is recorded as observed and the timer is stopped. From then on,
  whatever show events and timer ticks follow, the poll routine loads nothing, and the
  timer stays stopped.
\<close>

theorem pending_url_only_defers_first_load:
  "(start_url \<noteq> [] \<longrightarrow> pending_url (showEvent start_url st) = Some start_url) \<and>
   fst (try_load_url b st) =
     (if truthy (pending_url st) \<and> \<not> has_loaded st then [Load_uri (the (pending_url st))] else []) \<and>
   (truthy (pending_url st) \<and> \<not> has_loaded st \<longrightarrow>
      pending_url (snd (try_load_url True st)) = None \<and>
      has_loaded (snd (try_load_url True st)) \<and>
      \<not> timer_active (snd (try_load_url True st))) \<and>
   (has_loaded st \<longrightarrow>
      fst (poll_run start_url st evs) = [] \<and> has_loaded (snd (poll_run start_url st evs))) \<and>
   (has_loaded st \<and> \<not> timer_active st \<longrightarrow> \<not> timer_active (snd (poll_run start_url st evs)))"
proof -
  have a: "start_url \<noteq> [] \<longrightarrow> pending_url (showEvent start_url st) = Some start_url"
    by (simp add: showEvent_def)
  have c: "truthy (pending_url st) \<and> \<not> has_loaded st \<longrightarrow>
      pending_url (snd (try_load_url True st)) = None \<and>
      has_loaded (snd (try_load_url True st)) \<and>
      \<not> timer_active (snd (try_load_url True st))"
    by (simp add: try_load_url_def)
  have d: "has_loaded st \<longrightarrow>
      fst (poll_run start_url st evs) = [] \<and> has_loaded (snd (poll_run start_url st evs))"
    using poll_run_loaded by blast
  have e: "has_loaded st \<and> \<not> timer_active st \<longrightarrow> \<not> timer_active (snd (poll_run start_url st evs))"
    using poll_run_timer_stopped by blast
  from a c d e show ?thesis
    by (simp add: try_load_url_effects)
qed

theorem pending_url_only_defers_first_load_witness:
  "poll_run ''https://example.org/'' initial_poll_state
     [Show, Timeout False, Timeout True, Show, Timeout True, Timeout False] =
     ([Load_uri ''https://example.org/'', Load_uri ''https://example.org/''],
      \<lparr>pending_url = Some ''https://example.org/'', has_loaded = True, timer_active = False\<rparr>) \<and>
   fst (poll_run ''https://example.org/''
          \<lparr>pending_url = None, has_loaded = True, timer_active = False\<rparr>
          [Show, Timeout True, Timeout False]) = []"
  using pending_url_only_defers_first_load
    [of "''https://example.org/''" "\<lparr>pending_url = None, has_loaded = True, timer_active = False\<rparr>"
        True "[Show, Timeout True, Timeout False]"]
  by (simp add: initial_poll_state_def showEvent_def try_load_url_def truthy_def)

section \<open>The two shells compared\<close>

text \<open>
  C5, as it is stated, fails. Shift+P without Ctrl saves a PDF in the GTK shell and is not
  a keybinding of the Qt shell; so is Ctrl+Alt+Q, which quits the GTK shell only; and so
  is Ctrl+Shift+Plus, which zooms in the GTK shell only. With an empty find term, Ctrl+N
  asks the GTK engine for the next match while the Qt shell does nothing.
\<close>

theorem shells_differ_on_modifiers_and_find:
  "gtk_dispatch (press KEY_P {SHIFT_MASK}) = Some Save_pdf \<and>
   qt_dispatch (qt_event_of (press KEY_P {SHIFT_MASK})) = None \<and>
   gtk_dispatch (press KEY_q {CONTROL_MASK, MOD1_MASK}) = Some Quit \<and>
   qt_dispatch (qt_event_of (press KEY_q {CONTROL_MASK, MOD1_MASK})) = None \<and>
   gtk_dispatch (press KEY_plus {CONTROL_MASK, SHIFT_MASK}) = Some Zoom_in \<and>
   qt_dispatch (qt_event_of (press KEY_plus {CONTROL_MASK, SHIFT_MASK})) = None \<and>
   fst (snd (gtk_on_key sample_world [] (press KEY_n {CONTROL_MASK}))) =
     [Find_search_next, Print ''Find next''] \<and>
   fst (snd (qt_on_key sample_world [] (qt_event_of (press KEY_n {CONTROL_MASK})))) = []"
proof -
  have m: "{AltModifier, ControlModifier} \<noteq> {ControlModifier}"
    "{ShiftModifier, ControlModifier} \<noteq> {ControlModifier}"
    "{ShiftModifier} \<noteq> {ControlModifier}" "{ShiftModifier} \<noteq> {ShiftModifier, ControlModifier}"
    by auto
  have d: "debug_print sample_world = []"
    by (simp add: sample_world_def debug_print_def truthy_def)
  show ?thesis
    by (simp add: press_def gtk_dispatch_def qt_dispatch_def qt_event_of_def qt_modifiers_of_def
        to_upper_def held_empty held_insert gtk_on_key_def qt_on_key_def prepend_def d m)
qed

text \<open>
  C5, as the code has it. For every key press whose modifiers among Shift, Ctrl, Alt and
  Super are exactly as the help text lists them (none, Ctrl alone or Alt alone with an
  unshifted key value, or Ctrl and Shift with an upper-case letter), the GTK shell and the
  Qt shell select the same action, or both leave the key to the engine.
\<close>

theorem shells_agree_on_listed_combinations:
  assumes "listed_combination e"
  shows "qt_dispatch (qt_event_of e) = gtk_dispatch e"
proof (cases "keyval e")
  case (KEY_char c)
  show ?thesis
  proof (cases "c \<in> set ascii_uppercase")
    case True
    with KEY_char have "upper_case_key (keyval e)"
      by (simp add: upper_case_key_def)
    from listed_upper [OF assms this] KEY_char True show ?thesis
      by (intro agree_upper) simp_all
  next
    case False
    with KEY_char have plain: "\<not> upper_case_key (keyval e)"
      by (simp add: upper_case_key_def)
    show ?thesis
    proof (cases "c \<in> set ascii_lowercase")
      case True
      from listed_plain [OF assms plain] KEY_char True show ?thesis
        by (intro agree_lower) simp_all
    next
      case lower: False
      from listed_plain [OF assms plain] KEY_char False lower show ?thesis
        by (intro agree_no_letter) simp_all
    qed
  qed
next
  case KEY_F1
  then have "\<not> upper_case_key (keyval e)" by (simp add: upper_case_key_def)
  from listed_plain [OF assms this] KEY_F1 show ?thesis
    by (intro agree_other_keys) simp_all
next
  case KEY_F5
  then have "\<not> upper_case_key (keyval e)" by (simp add: upper_case_key_def)
  from listed_plain [OF assms this] KEY_F5 show ?thesis
    by (intro agree_other_keys) simp_all
next
  case KEY_F12
  then have "\<not> upper_case_key (keyval e)" by (simp add: upper_case_key_def)
  from listed_plain [OF assms this] KEY_F12 show ?thesis
    by (intro agree_other_keys) simp_all
next
  case KEY_Left
  then have "\<not> upper_case_key (keyval e)" by (simp add: upper_case_key_def)
  from listed_plain [OF assms this] KEY_Left show ?thesis
    by (intro agree_other_keys) simp_all
next
  case KEY_Right
  then have "\<not> upper_case_key (keyval e)" by (simp add: upper_case_key_def)
  from listed_plain [OF assms this] KEY_Right show ?thesis
    by (intro agree_other_keys) simp_all
next
  case (KEY_other n)
  then have "\<not> upper_case_key (keyval e)" by (simp add: upper_case_key_def)
  from listed_plain [OF assms this] KEY_other show ?thesis
    by (intro agree_other_keys [of _ n]) simp_all
qed

theorem shells_agree_on_listed_combinations_witness:
  "listed_combination (press KEY_P {CONTROL_MASK, SHIFT_MASK, MOD2_MASK}) \<and>
   gtk_dispatch (press KEY_P {CONTROL_MASK, SHIFT_MASK, MOD2_MASK}) = Some Save_pdf \<and>
   qt_dispatch (qt_event_of (press KEY_P {CONTROL_MASK, SHIFT_MASK, MOD2_MASK})) = Some Save_pdf"
proof -
  have h: "listed_combination (press KEY_P {CONTROL_MASK, SHIFT_MASK, MOD2_MASK})"
    by (auto simp: listed_combination_def upper_case_key_def only_held_def press_def
        ascii_uppercase_def)
  have g: "gtk_dispatch (press KEY_P {CONTROL_MASK, SHIFT_MASK, MOD2_MASK}) = Some Save_pdf"
    by (simp add: press_def gtk_dispatch_def held_empty held_insert)
  from shells_agree_on_listed_combinations [OF h] h g show ?thesis
    by simp
qed

text \<open>
  In particular, each keybinding of the help text is mapped by both shells to the action
  the help text names.
\<close>

lemma help_text_keybindings_agree:
  "list_all same_action keybindings"
proof -
  have m: "{ControlModifier, ShiftModifier} = {ShiftModifier, ControlModifier}"
    by auto
  show ?thesis
    by (simp add: keybindings_def same_action_def press_def gtk_dispatch_def qt_dispatch_def
        qt_event_of_def qt_modifiers_of_def to_upper_def held_empty held_insert m)
qed


end
